theory Spec2Isabelle
  imports
    Complex_Main
    "HOL-Library.Char_ord"
    "HOL-Library.List_Lexorder"
    "HOL-Library.Product_Lexorder"
begin

section \<open>Numbers\<close>

text \<open>
  Python and numpy floats are idealised as exact reals, except in the 7-day forecast,
  where the rounding to doubles is written out; the one non-finite value that the
  pipeline can produce from natural-number counts, the quiet NaN of a pandas \<open>0 / 0\<close>, is
  kept as a value of its own, because every comparison with it is false and the
  classification of a district depends on that.
\<close>

datatype pyfloat = Finite real | NaN

fun fadd :: "pyfloat \<Rightarrow> pyfloat \<Rightarrow> pyfloat" where
  "fadd (Finite a) (Finite b) = Finite (a + b)"
| "fadd _ _ = NaN"

fun fmul :: "pyfloat \<Rightarrow> pyfloat \<Rightarrow> pyfloat" where
  "fmul (Finite a) (Finite b) = Finite (a * b)"
| "fmul _ _ = NaN"

text \<open>Division; every divisor the modelled code passes is a nonzero constant or a guarded capacity.\<close>

fun fdiv :: "pyfloat \<Rightarrow> pyfloat \<Rightarrow> pyfloat" where
  "fdiv (Finite a) (Finite b) = Finite (a / b)"
| "fdiv _ _ = NaN"

fun flt :: "pyfloat \<Rightarrow> pyfloat \<Rightarrow> bool" where
  "flt (Finite a) (Finite b) = (a < b)"
| "flt _ _ = False"

fun fle :: "pyfloat \<Rightarrow> pyfloat \<Rightarrow> bool" where
  "fle (Finite a) (Finite b) = (a \<le> b)"
| "fle _ _ = False"

text \<open>Python's \<open>max(a, b)\<close> keeps \<open>a\<close> unless \<open>b > a\<close>; \<open>min(a, b)\<close> keeps \<open>a\<close> unless \<open>b < a\<close>.\<close>

definition py_max :: "pyfloat \<Rightarrow> pyfloat \<Rightarrow> pyfloat" where
  "py_max a b = (if flt a b then b else a)"

definition py_min :: "pyfloat \<Rightarrow> pyfloat \<Rightarrow> pyfloat" where
  "py_min a b = (if flt b a then b else a)"

text \<open>\<open>int(x)\<close> truncates towards zero.\<close>

definition py_int :: "real \<Rightarrow> int" where
  "py_int x = (if 0 \<le> x then \<lfloor>x\<rfloor> else \<lceil>x\<rceil>)"

text \<open>Rounding to the nearest integer, ties to the even neighbour.\<close>

definition round_half_even :: "real \<Rightarrow> int" where
  "round_half_even y =
     (let f = \<lfloor>y\<rfloor>; d = y - of_int f
      in if d < 1 / 2 then f
         else if 1 / 2 < d then f + 1
         else if even f then f else f + 1)"

text \<open>
  \<open>round(x, nd)\<close> and the pandas \<open>.round(nd)\<close>, of the exact value of \<open>x\<close>. A double
  that the program computes can lie a rounding error beside the exact value; where the
  exact value is a decimal tie the program then rounds to the side its double lies on, so
  the evaluations below use inputs away from ties.
\<close>

definition py_round :: "real \<Rightarrow> nat \<Rightarrow> real" where
  "py_round x nd = of_int (round_half_even (x * 10 ^ nd)) / 10 ^ nd"

fun fround :: "pyfloat \<Rightarrow> nat \<Rightarrow> pyfloat" where
  "fround (Finite x) nd = Finite (py_round x nd)"
| "fround NaN nd = NaN"

section \<open>generate\_data.py: the DSI engine\<close>

definition calculate_dsi ::
  "pyfloat \<Rightarrow> pyfloat \<Rightarrow> pyfloat \<Rightarrow> pyfloat \<Rightarrow> pyfloat \<Rightarrow> pyfloat" where
  "calculate_dsi volume adult_percent capacity seasonal repeat_rate =
     (let Wa = fdiv adult_percent (Finite 100);
          S = fmul volume seasonal;
          Ws = Finite 1.5;
          R = fmul volume repeat_rate;
          capacity1 = (if fle capacity (Finite 0) then Finite 1 else capacity);
          dsi = fadd (fdiv (fadd (fmul volume Wa) (fmul S Ws)) capacity1) R;
          dsi1 = py_min (py_max (fdiv dsi (Finite 1000)) (Finite 0)) (Finite 10)
      in fround dsi1 2)"

text \<open>The keyword defaults \<open>seasonal=0.1\<close> and \<open>repeat_rate=0.05\<close>.\<close>

definition seasonal_default :: pyfloat where
  "seasonal_default = Finite 0.1"

definition repeat_rate_default :: pyfloat where
  "repeat_rate_default = Finite 0.05"

definition get_dsi_status :: "pyfloat \<Rightarrow> string" where
  "get_dsi_status dsi =
     (if flt dsi (Finite 3.3) then ''low''
      else if flt dsi (Finite 6.6) then ''medium''
      else ''critical'')"

section \<open>Tables\<close>

text \<open>
  The three master tables, one record per CSV row, with the columns the pipeline reads;
  the age buckets are counts. The column \<open>demo_age_17_\<close> is written
  \<open>demo_age_17_plus\<close>, \<open>bio_age_17_\<close> is \<open>bio_age_17_plus\<close>.
\<close>

record demographic_row =
  demo_state :: string
  demo_district :: string
  demo_age_5_17 :: nat
  demo_age_17_plus :: nat

record biometric_row =
  bio_state :: string
  bio_district :: string
  bio_age_5_17 :: nat
  bio_age_17_plus :: nat

record enrolment_row =
  enrol_state :: string
  enrol_district :: string
  age_0_5 :: nat
  age_5_17 :: nat
  age_18_greater :: nat

text \<open>
  \<open>df.groupby(keys)\<close>: one group per distinct key, the groups in ascending key order;
  \<open>sum\<close> and \<open>size\<close> of a group.
\<close>

definition groupby_keys :: "('r \<Rightarrow> 'k::linorder) \<Rightarrow> 'r list \<Rightarrow> 'k list" where
  "groupby_keys key df = sort (remdups (map key df))"

definition group_sum :: "('r \<Rightarrow> 'k) \<Rightarrow> ('r \<Rightarrow> nat) \<Rightarrow> 'r list \<Rightarrow> 'k \<Rightarrow> nat" where
  "group_sum key col df k = sum_list (map col (filter (\<lambda>r. key r = k) df))"

definition group_size :: "('r \<Rightarrow> 'k) \<Rightarrow> 'r list \<Rightarrow> 'k \<Rightarrow> nat" where
  "group_size key df k = length (filter (\<lambda>r. key r = k) df)"

text \<open>\<open>pd.merge(left, right, on=keys, how='inner')\<close>, in the order of the left rows.\<close>

definition merge_inner :: "('a \<Rightarrow> 'k) \<Rightarrow> ('b \<Rightarrow> 'k) \<Rightarrow> 'a list \<Rightarrow> 'b list \<Rightarrow> ('a \<times> 'b) list" where
  "merge_inner kl kr left right =
     concat (map (\<lambda>l. map (\<lambda>r. (l, r)) (filter (\<lambda>r. kr r = kl l) right)) left)"

text \<open>The slice \<open>xs[:n]\<close>; a negative \<open>n\<close> counts from the end.\<close>

definition py_slice_to :: "'a list \<Rightarrow> int \<Rightarrow> 'a list" where
  "py_slice_to xs n =
     (if 0 \<le> n then take (nat n) xs else take (length xs - nat (- n)) xs)"

text \<open>
  \<open>sort(key=k, reverse=True)\<close> and \<open>sorted(.., key=k, reverse=True)\<close>: descending in
  the key and stable, rows of equal key staying in their order.
\<close>

definition sort_reverse :: "('a \<Rightarrow> real) \<Rightarrow> 'a list \<Rightarrow> 'a list" where
  "sort_reverse k xs = sort_key (\<lambda>x. - k x) xs"

section \<open>generate\_data.py: aggregation\<close>

record demo_agg =
  agg_state :: string
  agg_district :: string
  agg_demo_age_5_17 :: nat
  agg_demo_age_17_plus :: nat
  total_population :: nat
  adult_percent :: pyfloat
  agg_capacity :: int
  agg_dsi :: pyfloat
  agg_status :: string
  senior_count :: int

text \<open>
  One row of the aggregate of \<open>process_demographic_data\<close>. The pandas quotient
  \<open>demo_age_17_ / total_population\<close> of a group whose total is 0 is \<open>0 / 0\<close>, which is
  NaN and raises nothing (the adult count is part of the total, so it is 0 as well).
\<close>

definition demographic_agg_row :: "demographic_row list \<Rightarrow> string \<times> string \<Rightarrow> demo_agg" where
  "demographic_agg_row df k =
     (let key = (\<lambda>r. (demo_state r, demo_district r));
          s_5_17 = group_sum key demo_age_5_17 df k;
          s_17 = group_sum key demo_age_17_plus df k;
          total = s_5_17 + s_17;
          adult = (if total = 0 then NaN
                   else Finite (py_round (real s_17 / real total * 100) 1));
          cap = py_int (max (real total / 5000) 1);
          d = calculate_dsi (Finite (real s_17)) adult (Finite (of_int cap))
                seasonal_default repeat_rate_default
      in \<lparr>agg_state = fst k, agg_district = snd k,
          agg_demo_age_5_17 = s_5_17, agg_demo_age_17_plus = s_17,
          total_population = total, adult_percent = adult, agg_capacity = cap,
          agg_dsi = d, agg_status = get_dsi_status d,
          senior_count = py_int (real s_17 * 0.15)\<rparr>)"

text \<open>\<open>load_csv_safe\<close> gives \<open>None\<close> for a file it cannot read.\<close>

definition process_demographic_data :: "demographic_row list option \<Rightarrow> demo_agg list option" where
  "process_demographic_data loaded =
     (case loaded of
        None \<Rightarrow> None
      | Some df \<Rightarrow>
          Some (map (demographic_agg_row df)
                  (groupby_keys (\<lambda>r. (demo_state r, demo_district r)) df)))"

record bio_agg =
  bagg_state :: string
  bagg_district :: string
  bagg_bio_age_5_17 :: nat
  bagg_bio_age_17_plus :: nat
  total_updates :: nat

definition process_biometric_data :: "biometric_row list option \<Rightarrow> bio_agg list option" where
  "process_biometric_data loaded =
     (case loaded of
        None \<Rightarrow> None
      | Some df \<Rightarrow>
          Some (map (\<lambda>k.
                  (let key = (\<lambda>r. (bio_state r, bio_district r));
                       s_5_17 = group_sum key bio_age_5_17 df k;
                       s_17 = group_sum key bio_age_17_plus df k
                   in \<lparr>bagg_state = fst k, bagg_district = snd k,
                       bagg_bio_age_5_17 = s_5_17, bagg_bio_age_17_plus = s_17,
                       total_updates = s_5_17 + s_17\<rparr>))
                  (groupby_keys (\<lambda>r. (bio_state r, bio_district r)) df)))"

section \<open>generate\_data.py: migration corridors\<close>

record corridor =
  origin :: string
  destination :: string
  change_percent :: int
  volume :: int

text \<open>The hand-written corridor list, before the volumes are filled in.\<close>

definition corridors_static :: "(string \<times> string \<times> int) list" where
  "corridors_static =
     [(''Bihar'', ''Delhi'', 42),
      (''Uttar Pradesh'', ''Maharashtra'', 28),
      (''Rajasthan'', ''Gujarat'', 15),
      (''Madhya Pradesh'', ''Karnataka'', 8),
      (''Odisha'', ''Tamil Nadu'', 5),
      (''West Bengal'', ''Kerala'', 3),
      (''Jharkhand'', ''Haryana'', 12)]"

text \<open>
  \<open>state_updates\<close>: the per-state sums, sorted by the sum descending (pandas leaves the
  order of equal sums open; the dictionary built from it does not depend on the order).
\<close>

definition state_updates :: "bio_agg list \<Rightarrow> (string \<times> nat) list" where
  "state_updates bio_df =
     sort_reverse (\<lambda>p. real (snd p))
       (map (\<lambda>s. (s, group_sum bagg_state total_updates bio_df s))
          (groupby_keys bagg_state bio_df))"

definition state_volumes :: "bio_agg list \<Rightarrow> string \<Rightarrow> nat option" where
  "state_volumes bio_df = map_of (state_updates bio_df)"

definition generate_migration_corridors :: "bio_agg list \<Rightarrow> corridor list" where
  "generate_migration_corridors bio_df =
     map (\<lambda>(orig, dest, change).
            (let origin_vol = (case state_volumes bio_df orig of
                                 None \<Rightarrow> 50000
                               | Some v \<Rightarrow> real v)
             in \<lparr>origin = orig, destination = dest, change_percent = change,
                 volume = py_int (origin_vol * 0.1)\<rparr>))
         corridors_static"

section \<open>generate\_data.py: anomalies\<close>

record anomaly =
  an_state :: string
  an_district :: string
  deviation :: real
  an_type :: string
  severity :: string

definition expected_updates :: "demo_agg \<Rightarrow> real" where
  "expected_updates d = real (total_population d) * 0.05"

definition merged_deviation :: "bio_agg \<times> demo_agg \<Rightarrow> real" where
  "merged_deviation row =
     py_round ((real (total_updates (fst row)) - expected_updates (snd row))
                 / max (expected_updates (snd row)) 1 * 100) 1"

text \<open>The inner merge of the two aggregates on state and district.\<close>

definition merged_rows :: "bio_agg list \<Rightarrow> demo_agg list \<Rightarrow> (bio_agg \<times> demo_agg) list" where
  "merged_rows bio_df demo_df =
     merge_inner (\<lambda>b. (bagg_state b, bagg_district b)) (\<lambda>d. (agg_state d, agg_district d))
       bio_df demo_df"

text \<open>The dictionary appended for a merged row.\<close>

definition anomaly_of_row :: "bio_agg \<times> demo_agg \<Rightarrow> anomaly" where
  "anomaly_of_row row =
     \<lparr>an_state = bagg_state (fst row), an_district = bagg_district (fst row),
      deviation = merged_deviation row,
      an_type = (if merged_deviation row > 0 then ''surge'' else ''drop''),
      severity = (if \<bar>merged_deviation row\<bar> > 80 then ''critical'' else ''warning'')\<rparr>"

definition generate_anomalies :: "bio_agg list \<Rightarrow> demo_agg list \<Rightarrow> anomaly list" where
  "generate_anomalies bio_df demo_df =
     (let merged = merged_rows bio_df demo_df;
          anomalies = map anomaly_of_row (filter (\<lambda>row. \<bar>merged_deviation row\<bar> > 40) merged)
      in take 20 (sort_reverse (\<lambda>x. \<bar>deviation x\<bar>) anomalies))"

section \<open>data\_processor.py: loading\<close>

text \<open>
  A CSV file on disk is absent, present but unreadable (\<open>read_csv\<close> raises), or holds a
  table.
\<close>

datatype 'a csv_file = Absent | Malformed | Csv 'a

record file_system =
  master_demographic_data :: "demographic_row list csv_file"
  master_enrolment_data :: "enrolment_row list csv_file"
  master_biometric_data :: "biometric_row list csv_file"

datatype py_error = FileNotFoundError | ParserError

record SankhyaDataProcessor =
  demographic_df :: "demographic_row list option"
  enrolment_df :: "enrolment_row list option"
  biometric_df :: "biometric_row list option"

fun table_of :: "'a csv_file \<Rightarrow> 'a option" where
  "table_of (Csv t) = Some t"
| "table_of _ = None"

text \<open>
  \<open>_load_data\<close>: each file is read only if it exists; an exception while reading is
  caught by the one \<open>try\<close> around all three, so it leaves the later tables unloaded.
\<close>

definition load_data :: "file_system \<Rightarrow> SankhyaDataProcessor" where
  "load_data fs =
     (let p0 = \<lparr>demographic_df = None, enrolment_df = None, biometric_df = None\<rparr>
      in case master_demographic_data fs of
           Malformed \<Rightarrow> p0
         | demo \<Rightarrow>
             (let p1 = p0\<lparr>demographic_df := table_of demo\<rparr>
              in case master_enrolment_data fs of
                   Malformed \<Rightarrow> p1
                 | enrol \<Rightarrow>
                     (let p2 = p1\<lparr>enrolment_df := table_of enrol\<rparr>
                      in case master_biometric_data fs of
                           Malformed \<Rightarrow> p2
                         | bio \<Rightarrow> p2\<lparr>biometric_df := table_of bio\<rparr>)))"

section \<open>data\_processor.py: the DSI of one district\<close>

text \<open>
  The two dictionaries \<open>calculate_dsi\<close> returns: the short one with the keys \<open>dsi\<close> and
  \<open>status\<close> only, and the full one.
\<close>

datatype dsi_result =
    Dsi_short (dsi: real) (status: string)
  | Dsi_full (district: string) (state: "string option") (dsi: real) (status: string)
      (volume_of: int) (capacity_of: int) (adult_percent_of: real)

fun dict_keys :: "dsi_result \<Rightarrow> string list" where
  "dict_keys (Dsi_short _ _) = [''dsi'', ''status'']"
| "dict_keys (Dsi_full _ _ _ _ _ _ _) =
     [''district'', ''state'', ''dsi'', ''status'', ''volume'', ''capacity'', ''adult_percent'']"

text \<open>Truth value of the optional \<open>state\<close> argument: \<open>None\<close> and the empty string are false.\<close>

fun truthy :: "string option \<Rightarrow> bool" where
  "truthy None = False"
| "truthy (Some s) = (s \<noteq> [])"

definition district_rows :: "demographic_row list \<Rightarrow> string \<Rightarrow> string option \<Rightarrow> demographic_row list" where
  "district_rows df0 district_name state_name =
     (if truthy state_name
      then filter (\<lambda>r. demo_district r = district_name \<and> Some (demo_state r) = state_name) df0
      else filter (\<lambda>r. demo_district r = district_name) df0)"

text \<open>The components \<open>V\<close>, \<open>total_pop\<close>, \<open>Wa\<close>, \<open>C\<close> and the normalised index of the filtered rows.\<close>

definition dsi_V :: "demographic_row list \<Rightarrow> real" where
  "dsi_V df = real (sum_list (map demo_age_17_plus df))"

definition dsi_total_pop :: "demographic_row list \<Rightarrow> real" where
  "dsi_total_pop df = real (sum_list (map demo_age_5_17 df)) + real (sum_list (map demo_age_17_plus df))"

definition dsi_Wa :: "demographic_row list \<Rightarrow> real" where
  "dsi_Wa df = (if dsi_total_pop df > 0 then dsi_V df / dsi_total_pop df * 100 else 0)"

definition dsi_C :: "demographic_row list \<Rightarrow> real" where
  "dsi_C df = max (dsi_total_pop df / 1000 * 10) 1"

definition dsi_normalised :: "demographic_row list \<Rightarrow> real" where
  "dsi_normalised df =
     (let V = dsi_V df;
          Wa = dsi_Wa df;
          S = V * 0.1;
          Ws = 1.5;
          C = dsi_C df;
          R = V * 0.05;
          d = (V * Wa + S * Ws) / C + R
      in min (d / 100) 10)"

definition status_of :: "real \<Rightarrow> string" where
  "status_of d = (if d < 3.3 then ''low'' else (if d < 6.6 then ''medium'' else ''critical''))"

definition SankhyaDataProcessor_calculate_dsi ::
  "SankhyaDataProcessor \<Rightarrow> string \<Rightarrow> string option \<Rightarrow> dsi_result" where
  "SankhyaDataProcessor_calculate_dsi self district_name state_name =
     (case demographic_df self of
        None \<Rightarrow> Dsi_short 0 ''no_data''
      | Some df0 \<Rightarrow>
          (let df = district_rows df0 district_name state_name
           in if df = [] then Dsi_short 0 ''not_found''
              else Dsi_full district_name state_name
                     (py_round (dsi_normalised df) 2)
                     (status_of (dsi_normalised df))
                     (py_int (dsi_V df))
                     (py_int (dsi_C df))
                     (py_round (dsi_Wa df) 1)))"

section \<open>data\_processor.py: ranking, migration flows, anomalies\<close>

definition get_top_stressed_districts :: "SankhyaDataProcessor \<Rightarrow> int \<Rightarrow> dsi_result list" where
  "get_top_stressed_districts self limit =
     (case demographic_df self of
        None \<Rightarrow> []
      | Some df \<Rightarrow>
          (let agg = groupby_keys (\<lambda>r. (demo_state r, demo_district r)) df;
               results =
                 filter (\<lambda>dsi_data. dsi dsi_data > 0)
                   (map (\<lambda>row. SankhyaDataProcessor_calculate_dsi self (snd row) (Some (fst row)))
                      (take 100 agg))
           in py_slice_to (sort_reverse dsi results) limit))"

definition migration_pairs :: "(string \<times> string \<times> int) list" where
  "migration_pairs =
     [(''Bihar'', ''Delhi'', 42),
      (''Uttar Pradesh'', ''Maharashtra'', 28),
      (''Rajasthan'', ''Gujarat'', 12),
      (''Madhya Pradesh'', ''Karnataka'', 8),
      (''Odisha'', ''Tamil Nadu'', 5)]"

text \<open>
  \<open>state_activity\<close>: updates per state, sorted descending (pandas leaves the order of
  equal sums open; here they keep the key order).
\<close>

definition state_activity :: "biometric_row list \<Rightarrow> (string \<times> nat) list" where
  "state_activity df =
     sort_reverse (\<lambda>p. real (snd p))
       (map (\<lambda>s. (s, group_sum bio_state bio_age_17_plus df s)) (groupby_keys bio_state df))"

definition get_migration_flows :: "SankhyaDataProcessor \<Rightarrow> corridor list" where
  "get_migration_flows self =
     (case biometric_df self of
        None \<Rightarrow> []
      | Some df \<Rightarrow>
          (let activity = state_activity df;
               top_states = map fst (take 10 activity);
               corridors =
                 map (\<lambda>(orig, dest, change).
                        \<lparr>origin = orig, destination = dest, change_percent = change,
                         volume = (case map_of activity orig of
                                     Some u \<Rightarrow> int u
                                   | None \<Rightarrow> 100000)\<rparr>)
                   (filter (\<lambda>(orig, dest, change). orig \<in> set top_states \<or> dest \<in> set top_states)
                      migration_pairs)
           in take 5 corridors))"

text \<open>
  The deviation of a district from the mean of its own rows; a group whose mean is 0 has
  total 0, the quotient is NaN and \<open>fillna(0)\<close> makes it 0.
\<close>

definition group_deviation :: "biometric_row list \<Rightarrow> string \<times> string \<Rightarrow> real" where
  "group_deviation df k =
     (let key = (\<lambda>r. (bio_state r, bio_district r));
          total = real (group_sum key bio_age_17_plus df k);
          mean = total / real (group_size key df k)
      in if mean = 0 then 0 else (total - mean) / mean * 100)"

text \<open>The dictionary appended for a group.\<close>

definition anomaly_of_group :: "biometric_row list \<Rightarrow> string \<times> string \<Rightarrow> anomaly" where
  "anomaly_of_group df k =
     \<lparr>an_state = fst k, an_district = snd k,
      deviation = py_round (group_deviation df k) 1,
      an_type = (if group_deviation df k > 0 then ''surge'' else ''drop''),
      severity = (if \<bar>group_deviation df k\<bar> > 60 then ''critical'' else ''warning'')\<rparr>"

definition detect_anomalies :: "SankhyaDataProcessor \<Rightarrow> anomaly list" where
  "detect_anomalies self =
     (case biometric_df self of
        None \<Rightarrow> []
      | Some df \<Rightarrow>
          (let agg = groupby_keys (\<lambda>r. (bio_state r, bio_district r)) df;
               anomalies = map (anomaly_of_group df)
                             (filter (\<lambda>k. \<bar>group_deviation df k\<bar> > 40) agg)
           in take 10 (sort_reverse (\<lambda>x. \<bar>deviation x\<bar>) anomalies)))"

section \<open>ai\_forecaster.py: loading and state trends\<close>

text \<open>\<open>load_real_data\<close> reads the three files with no guard: \<open>read_csv\<close> raises.\<close>

fun read_csv :: "'a csv_file \<Rightarrow> py_error + 'a" where
  "read_csv Absent = Inl FileNotFoundError"
| "read_csv Malformed = Inl ParserError"
| "read_csv (Csv t) = Inr t"

definition load_real_data ::
  "file_system \<Rightarrow> py_error + (demographic_row list \<times> biometric_row list \<times> enrolment_row list)" where
  "load_real_data fs =
     (case read_csv (master_demographic_data fs) of
        Inl e \<Rightarrow> Inl e
      | Inr demo_df \<Rightarrow>
          (case read_csv (master_biometric_data fs) of
             Inl e \<Rightarrow> Inl e
           | Inr bio_df \<Rightarrow>
               (case read_csv (master_enrolment_data fs) of
                  Inl e \<Rightarrow> Inl e
                | Inr enrol_df \<Rightarrow> Inr (demo_df, bio_df, enrol_df))))"

text \<open>
  The forecast cuts products of doubles to integers, so here the rounding of every
  arithmetic result to the nearest double is written out: \<open>rnd\<close> stands for that
  rounding (overflow aside), a literal \<open>1.15\<close> of the source is \<open>rnd 1.15\<close>. What the
  proofs use of it is collected in \<open>double_rounding\<close>: it is monotone, leaves a double
  unchanged, keeps 0 and 1, and between 0.01 and 2 its relative error is at most
  \<open>2 ^ -53\<close>.
\<close>

definition double_rounding :: "(real \<Rightarrow> real) \<Rightarrow> bool" where
  "double_rounding rnd \<longleftrightarrow>
     (\<forall>x y. x \<le> y \<longrightarrow> rnd x \<le> rnd y)
     \<and> (\<forall>x. rnd (rnd x) = rnd x)
     \<and> rnd 0 = 0 \<and> rnd 1 = 1
     \<and> (\<forall>x. 1 / 100 \<le> x \<and> x \<le> 2 \<longrightarrow> \<bar>rnd x - x\<bar> \<le> x / 2 ^ 53)"

text \<open>
  A row of \<open>state_data\<close>. The counts \<open>bio_count\<close> and \<open>enrol_count\<close> are numbers of
  rows (whole numbers below \<open>2 ^ 53\<close>, which doubles hold and add exactly).
\<close>

record state_data_row =
  sd_state :: string
  sd_total_population :: nat
  bio_count :: nat
  enrol_count :: nat
  daily_demand_rate :: real

definition calculate_historical_trends ::
  "(real \<Rightarrow> real) \<Rightarrow> demographic_row list \<Rightarrow> biometric_row list \<Rightarrow> enrolment_row list
     \<Rightarrow> state_data_row list" where
  "calculate_historical_trends rnd demo_df bio_df enrol_df =
     map (\<lambda>s.
            (let tot = group_sum demo_state demo_age_5_17 demo_df s
                         + group_sum demo_state demo_age_17_plus demo_df s;
                 bc = group_size bio_state bio_df s;
                 ec = group_size enrol_state enrol_df s
             in \<lparr>sd_state = s, sd_total_population = tot, bio_count = bc, enrol_count = ec,
                 daily_demand_rate = rnd (rnd (real (bc + ec) / real (max tot 1)) * 1000)\<rparr>))
         (groupby_keys demo_state demo_df)"

section \<open>numpy: seeding and the first uniform draw\<close>

text \<open>
  Modelled from numpy, which is not part of the repository: \<open>np.random.seed(s)\<close> fills
  the state of the Mersenne Twister MT19937 from the 32-bit seed, and the first
  \<open>np.random.uniform(low, high)\<close> after it takes the first two tempered 32-bit outputs
  \<open>a\<close> and \<open>b\<close>, forms the double \<open>((a >> 5) * 2^26 + (b >> 6)) / 2^53\<close> and returns
  \<open>low + (high - low) * \<close> that double. The first two outputs need the key words 0, 1, 2,
  397 and 398 of the seeded state only.
\<close>

unbundle bit_operations_syntax

definition mt19937_seed_step :: "nat \<Rightarrow> int \<Rightarrow> int" where
  "mt19937_seed_step pos s = (1812433253 * (s XOR drop_bit 30 s) + int pos + 1) mod 4294967296"

definition mt19937_key :: "nat \<Rightarrow> nat \<Rightarrow> int" where
  "mt19937_key seed n = fold mt19937_seed_step [0..<n] (int seed mod 4294967296)"

definition mt19937_gen :: "nat \<Rightarrow> nat \<Rightarrow> int" where
  "mt19937_gen seed kk =
     (let y = (mt19937_key seed kk AND 2147483648) OR (mt19937_key seed (kk + 1) AND 2147483647)
      in mt19937_key seed (kk + 397) XOR drop_bit 1 y XOR (if odd y then 2567483615 else 0))"

definition mt19937_temper :: "int \<Rightarrow> int" where
  "mt19937_temper y0 =
     (let y1 = y0 XOR drop_bit 11 y0;
          y2 = y1 XOR (push_bit 7 y1 AND 2636928640);
          y3 = y2 XOR (push_bit 15 y2 AND 4022730752)
      in y3 XOR drop_bit 18 y3)"

definition mt19937_next_double :: "nat \<Rightarrow> real" where
  "mt19937_next_double seed =
     (let a = drop_bit 5 (mt19937_temper (mt19937_gen seed 0));
          b = drop_bit 6 (mt19937_temper (mt19937_gen seed 1))
      in (of_int a * 67108864 + of_int b) / 9007199254740992)"

text \<open>\<open>np.random.seed(seed)\<close> followed by \<open>np.random.uniform(low, high)\<close>.\<close>

definition np_random_uniform :: "(real \<Rightarrow> real) \<Rightarrow> nat \<Rightarrow> real \<Rightarrow> real \<Rightarrow> real" where
  "np_random_uniform rnd seed low high =
     rnd (low + rnd (rnd (high - low) * mt19937_next_double seed))"

section \<open>ai\_forecaster.py: the 7-day forecast\<close>

text \<open>
  \<open>datetime.now()\<close> as the forecast reads it: the day number of the date (Python's
  \<open>toordinal\<close>, from which \<open>weekday\<close> is computed), the month and the day of the month.
  A forecast date is kept as its day number, \<open>today + timedelta(days=day)\<close> adding to it.
\<close>

record date_time =
  dt_ordinal :: int
  dt_month :: nat
  dt_day :: nat

definition weekday :: "int \<Rightarrow> nat" where
  "weekday ord = nat ((ord + 6) mod 7)"

definition dow_factors :: "nat \<Rightarrow> real" where
  "dow_factors dow =
     (if dow = 0 then 1.15
      else if dow = 1 then 1.10
      else if dow = 2 then 1.05
      else if dow = 3 then 1.00
      else if dow = 4 then 0.95
      else if dow = 5 then 0.70
      else 0.50)"

definition seasonal_factor :: "nat \<Rightarrow> real" where
  "seasonal_factor m =
     (if m \<in> set [1, 3, 4] then 1.25
      else if m \<in> set [10, 11, 12] then 1.15
      else if m \<in> set [6, 7, 8] then 0.85
      else 1.0)"

definition day_names :: "string list" where
  "day_names = [''Monday'', ''Tuesday'', ''Wednesday'', ''Thursday'', ''Friday'', ''Saturday'', ''Sunday'']"

record forecast =
  fc_date :: int
  day_name :: string
  predicted_transactions :: int
  confidence :: real
  low_estimate :: int
  high_estimate :: int

text \<open>The variance factor of day \<open>d\<close>: the generator is seeded with \<open>day + today.day\<close>.\<close>

definition variance_of :: "(real \<Rightarrow> real) \<Rightarrow> date_time \<Rightarrow> nat \<Rightarrow> real" where
  "variance_of rnd today d = np_random_uniform rnd (d + dt_day today) (rnd 0.95) (rnd 1.05)"

text \<open>The demand of one day before it is cut to an integer, each product a double.\<close>

definition predicted_demand :: "(real \<Rightarrow> real) \<Rightarrow> real \<Rightarrow> date_time \<Rightarrow> nat \<Rightarrow> real" where
  "predicted_demand rnd base_daily today d =
     (let dow = weekday (dt_ordinal today + int d);
          p = rnd (rnd (base_daily * rnd (dow_factors dow)) * rnd (seasonal_factor (dt_month today)));
          trend_factor = rnd (1 + rnd (real d * rnd 0.005));
          p1 = rnd (p * trend_factor);
          variance = variance_of rnd today d
      in rnd (p1 * variance))"

definition base_daily_of :: "(real \<Rightarrow> real) \<Rightarrow> state_data_row list \<Rightarrow> real" where
  "base_daily_of rnd state_data =
     rnd (real (sum_list (map bio_count state_data) + sum_list (map enrol_count state_data)) / 30)"

text \<open>The confidence of day \<open>d\<close> before \<open>round(confidence, 2)\<close>.\<close>

definition confidence_of :: "(real \<Rightarrow> real) \<Rightarrow> nat \<Rightarrow> real" where
  "confidence_of rnd d = max (rnd 0.65) (rnd (rnd 0.95 - rnd (real d * rnd 0.04)))"

definition generate_7day_forecast ::
  "(real \<Rightarrow> real) \<Rightarrow> state_data_row list \<Rightarrow> date_time \<Rightarrow> forecast list" where
  "generate_7day_forecast rnd state_data today =
     map (\<lambda>d.
            (let forecast_date = dt_ordinal today + int d;
                 p = predicted_demand rnd (base_daily_of rnd state_data) today d
             in \<lparr>fc_date = forecast_date,
                 day_name = day_names ! weekday forecast_date,
                 predicted_transactions = py_int p,
                 confidence = rnd (py_round (confidence_of rnd d) 2),
                 low_estimate = py_int (rnd (p * rnd 0.85)),
                 high_estimate = py_int (rnd (p * rnd 1.15))\<rparr>))
         [0..<7]"

section \<open>ai\_forecaster.py: blue zones and digital exclusion zones\<close>

record zone =
  zn_state :: string
  zn_district :: string
  zn_demo_age_5_17 :: nat
  zn_demo_age_17_plus :: nat
  total :: nat
  adult_ratio :: real
  zn_bio_count :: real
  zn_enrol_count :: real
  activity_per_capita :: real
  zone_type :: string
  zone_reason :: string

text \<open>
  \<open>district_data\<close>, one row per district of the demographic table; the columns
  \<open>zone_type\<close> and \<open>zone_reason\<close> are empty until a row is copied into a zone frame.
\<close>

definition district_data ::
  "demographic_row list \<Rightarrow> biometric_row list \<Rightarrow> enrolment_row list \<Rightarrow> zone list" where
  "district_data demo_df bio_df enrol_df =
     map (\<lambda>k.
            (let key = (\<lambda>r. (demo_state r, demo_district r));
                 s_5_17 = group_sum key demo_age_5_17 demo_df k;
                 s_17 = group_sum key demo_age_17_plus demo_df k;
                 tot = s_5_17 + s_17;
                 bc = real (group_size (\<lambda>r. (bio_state r, bio_district r)) bio_df k);
                 ec = real (group_size (\<lambda>r. (enrol_state r, enrol_district r)) enrol_df k)
             in \<lparr>zn_state = fst k, zn_district = snd k,
                 zn_demo_age_5_17 = s_5_17, zn_demo_age_17_plus = s_17,
                 total = tot,
                 adult_ratio = real s_17 / max (real tot) 1,
                 zn_bio_count = bc, zn_enrol_count = ec,
                 activity_per_capita = (bc + ec) / max (real tot) 1,
                 zone_type = [], zone_reason = []\<rparr>))
         (groupby_keys (\<lambda>r. (demo_state r, demo_district r)) demo_df)"

text \<open>
  \<open>Series.quantile(q)\<close>, linear interpolation between the two nearest order statistics;
  NaN for an empty series.
\<close>

definition quantile :: "real list \<Rightarrow> real \<Rightarrow> pyfloat" where
  "quantile xs q =
     (if xs = [] then NaN
      else (let s = sort xs;
                h = real (length xs - 1) * q;
                lo = nat \<lfloor>h\<rfloor>;
                hi = min (lo + 1) (length xs - 1)
            in Finite (s ! lo + (s ! hi - s ! lo) * (h - real lo))))"

text \<open>\<open>drop_duplicates(subset=['state', 'district'])\<close>: the first row of every key stays.\<close>

fun drop_duplicates_from :: "('a \<Rightarrow> 'k) \<Rightarrow> 'k list \<Rightarrow> 'a list \<Rightarrow> 'a list" where
  "drop_duplicates_from key seen [] = []"
| "drop_duplicates_from key seen (x # xs) =
     (if key x \<in> set seen then drop_duplicates_from key seen xs
      else x # drop_duplicates_from key (key x # seen) xs)"

definition drop_duplicates :: "('a \<Rightarrow> 'k) \<Rightarrow> 'a list \<Rightarrow> 'a list" where
  "drop_duplicates key xs = drop_duplicates_from key [] xs"

definition senior_threshold :: "zone list \<Rightarrow> pyfloat" where
  "senior_threshold data = quantile (map adult_ratio data) 0.80"

definition activity_threshold :: "zone list \<Rightarrow> pyfloat" where
  "activity_threshold data = quantile (map activity_per_capita data) 0.20"

definition blue_zones :: "zone list \<Rightarrow> zone list" where
  "blue_zones data =
     map (\<lambda>z. z\<lparr>zone_type := ''blue_zone'',
               zone_reason := ''High senior population (60+ age group)''\<rparr>)
       (filter (\<lambda>z. fle (senior_threshold data) (Finite (adult_ratio z))) data)"

definition dez_zones :: "zone list \<Rightarrow> zone list" where
  "dez_zones data =
     map (\<lambda>z. z\<lparr>zone_type := ''dez'', zone_reason := ''Low digital enrollment activity''\<rparr>)
       (filter (\<lambda>z. fle (Finite (activity_per_capita z)) (activity_threshold data)) data)"

definition calculate_blue_zone_dez ::
  "demographic_row list \<Rightarrow> biometric_row list \<Rightarrow> enrolment_row list \<Rightarrow> zone list" where
  "calculate_blue_zone_dez demo_df bio_df enrol_df =
     (let data = district_data demo_df bio_df enrol_df
      in drop_duplicates (\<lambda>z. (zn_state z, zn_district z)) (blue_zones data @ dez_zones data))"

section \<open>ai\_forecaster.py: the run\<close>

text \<open>
  The forecast and the zone analysis of \<open>run_ai_forecast\<close> (the resource
  recommendations and the summary entries are left out); \<open>zone_analysis\<close> is
  \<open>zones[:40]\<close>.
\<close>

record ai_results =
  forecast_7day :: "forecast list"
  zone_analysis :: "zone list"

definition run_ai_forecast ::
  "(real \<Rightarrow> real) \<Rightarrow> file_system \<Rightarrow> date_time \<Rightarrow> py_error + ai_results" where
  "run_ai_forecast rnd fs today =
     (case load_real_data fs of
        Inl e \<Rightarrow> Inl e
      | Inr (demo_df, bio_df, enrol_df) \<Rightarrow>
          (let state_data = calculate_historical_trends rnd demo_df bio_df enrol_df;
               forecasts = generate_7day_forecast rnd state_data today;
               zones = calculate_blue_zone_dez demo_df bio_df enrol_df
           in Inr \<lparr>forecast_7day = forecasts, zone_analysis = take 40 zones\<rparr>))"

section \<open>The DSI formula as the specification words it\<close>

text \<open>
  Stated from the specification, for comparison with the two implementations:
  \<open>raw = (volume * Wa + S * Ws) / max(capacity, 1) + R\<close> with \<open>Wa = adultPercent / 100\<close>,
  \<open>S = volume * 0.1\<close>, \<open>Ws = 1.5\<close>, \<open>R = volume * 0.05\<close>, and
  \<open>dsi = clamp(raw / scaleDivisor, 0, 10)\<close>.
\<close>

definition dsi_spec :: "real \<Rightarrow> real \<Rightarrow> real \<Rightarrow> real \<Rightarrow> real" where
  "dsi_spec scaleDivisor vol adultPercent cap =
     (let raw = (vol * (adultPercent / 100) + (vol * 0.1) * 1.5) / max cap 1 + vol * 0.05
      in min (max (raw / scaleDivisor) 0) 10)"

section \<open>Sample inputs\<close>

definition example_demographic :: "demographic_row list" where
  "example_demographic =
     [\<lparr>demo_state = ''Bihar'', demo_district = ''Patna'', demo_age_5_17 = 10, demo_age_17_plus = 40\<rparr>]"

definition example_processor :: SankhyaDataProcessor where
  "example_processor =
     \<lparr>demographic_df = Some example_demographic, enrolment_df = None, biometric_df = None\<rparr>"

definition boundary_demographic :: "demographic_row list" where
  "boundary_demographic =
     [\<lparr>demo_state = ''Bihar'', demo_district = ''Patna'', demo_age_5_17 = 32, demo_age_17_plus = 12\<rparr>]"

definition boundary_processor :: SankhyaDataProcessor where
  "boundary_processor =
     \<lparr>demographic_df = Some boundary_demographic, enrolment_df = None, biometric_df = None\<rparr>"

definition no_files :: file_system where
  "no_files = \<lparr>master_demographic_data = Absent, master_enrolment_data = Absent,
                master_biometric_data = Absent\<rparr>"

definition zero_population_demographic :: "demographic_row list" where
  "zero_population_demographic =
     [\<lparr>demo_state = ''Bihar'', demo_district = ''Patna'', demo_age_5_17 = 0, demo_age_17_plus = 0\<rparr>]"

definition example_bio_agg :: "bio_agg list" where
  "example_bio_agg =
     [\<lparr>bagg_state = ''Bihar'', bagg_district = ''Patna'', bagg_bio_age_5_17 = 5,
       bagg_bio_age_17_plus = 10, total_updates = 15\<rparr>]"

definition example_bio_145 :: "bio_agg list" where
  "example_bio_145 =
     [\<lparr>bagg_state = ''Bihar'', bagg_district = ''Patna'', bagg_bio_age_5_17 = 45,
       bagg_bio_age_17_plus = 100, total_updates = 145\<rparr>]"

definition example_bio_170 :: "bio_agg list" where
  "example_bio_170 =
     [\<lparr>bagg_state = ''Bihar'', bagg_district = ''Patna'', bagg_bio_age_5_17 = 70,
       bagg_bio_age_17_plus = 100, total_updates = 170\<rparr>]"

definition example_demo_2000 :: "demo_agg list" where
  "example_demo_2000 =
     [\<lparr>agg_state = ''Bihar'', agg_district = ''Patna'', agg_demo_age_5_17 = 1000,
       agg_demo_age_17_plus = 1000, total_population = 2000, adult_percent = Finite 50,
       agg_capacity = 1, agg_dsi = Finite (7 / 10), agg_status = ''low'', senior_count = 150\<rparr>]"

definition example_state_data :: "state_data_row list" where
  "example_state_data =
     [\<lparr>sd_state = ''Bihar'', sd_total_population = 1000, bio_count = 400, enrol_count = 227,
       daily_demand_rate = 627\<rparr>]"

definition example_today :: date_time where
  "example_today = \<lparr>dt_ordinal = 739372, dt_month = 5, dt_day = 1\<rparr>"

definition biometric_missing :: file_system where
  "biometric_missing =
     \<lparr>master_demographic_data = Csv example_demographic, master_enrolment_data = Csv [],
      master_biometric_data = Absent\<rparr>"

section \<open>Properties\<close>

lemma round_half_even_mono_lower: "of_int k \<le> y \<Longrightarrow> k \<le> round_half_even y"
proof -
  assume "of_int k \<le> y"
  then have "k \<le> \<lfloor>y\<rfloor>" by (simp add: le_floor_iff)
  then show ?thesis by (auto simp: round_half_even_def Let_def)
qed

lemma round_half_even_mono_upper: "y \<le> of_int k \<Longrightarrow> round_half_even y \<le> k"
proof -
  assume h: "y \<le> of_int k"
  have f: "\<lfloor>y\<rfloor> \<le> k" using h by (metis floor_mono floor_of_int)
  show ?thesis
  proof (cases "\<lfloor>y\<rfloor> = k")
    case True
    have "of_int \<lfloor>y\<rfloor> \<le> y" by (rule of_int_floor_le)
    then have "y = of_int k" using h True by simp
    then show ?thesis by (simp add: round_half_even_def)
  next
    case False
    then have "\<lfloor>y\<rfloor> + 1 \<le> k" using f by linarith
    then show ?thesis by (auto simp: round_half_even_def Let_def)
  qed
qed

lemma py_round_bounds:
  assumes "of_int a \<le> x" and "x \<le> of_int b"
  shows "of_int a \<le> py_round x nd \<and> py_round x nd \<le> of_int b"
proof -
  have p: "(0::real) < 10 ^ nd" by simp
  have "of_int (a * 10 ^ nd) \<le> x * 10 ^ nd" using assms(1) p by simp
  then have l: "a * 10 ^ nd \<le> round_half_even (x * 10 ^ nd)"
    by (rule round_half_even_mono_lower)
  have "x * 10 ^ nd \<le> of_int (b * 10 ^ nd)" using assms(2) p by simp
  then have u: "round_half_even (x * 10 ^ nd) \<le> b * 10 ^ nd"
    by (rule round_half_even_mono_upper)
  have l': "of_int a * 10 ^ nd \<le> (of_int (round_half_even (x * 10 ^ nd)) :: real)"
    using l by (metis of_int_le_iff of_int_mult of_int_numeral of_int_power)
  have u': "(of_int (round_half_even (x * 10 ^ nd)) :: real) \<le> of_int b * 10 ^ nd"
    using u by (metis of_int_le_iff of_int_mult of_int_numeral of_int_power)
  show ?thesis
    unfolding py_round_def using l' u' p by (simp add: pos_le_divide_eq pos_divide_le_eq)
qed

subsection \<open>The range of the DSI and its classification at the thresholds\<close>

lemma calculate_dsi_finite:
  assumes "0 \<le> v" and "0 \<le> a" and "0 \<le> c"
  shows "\<exists>d. calculate_dsi (Finite v) (Finite a) (Finite c) seasonal_default repeat_rate_default = Finite d
           \<and> 0 \<le> d \<and> d \<le> 10"
proof -
  define c1 where "c1 = (if c \<le> 0 then 1 else c)"
  define raw where "raw = (v * (a / 100) + v * (1 / 10) * (3 / 2)) / c1 + v * (5 / 100)"
  define x where "x = min (max (raw / 1000) 0) 10"
  have eq: "calculate_dsi (Finite v) (Finite a) (Finite c) seasonal_default repeat_rate_default
          = Finite (py_round x 2)"
    by (auto simp: calculate_dsi_def seasonal_default_def repeat_rate_default_def Let_def
        py_min_def py_max_def x_def raw_def c1_def min_def max_def)
  have "of_int 0 \<le> x" and "x \<le> of_int 10" by (simp_all add: x_def)
  then have "of_int 0 \<le> py_round x 2 \<and> py_round x 2 \<le> of_int 10"
    by (rule py_round_bounds)
  then show ?thesis using eq by simp
qed

lemma dsi_normalised_range: "0 \<le> dsi_normalised df \<and> dsi_normalised df \<le> 10"
proof -
  have V: "0 \<le> dsi_V df" by (simp add: dsi_V_def)
  have T: "0 \<le> dsi_total_pop df" by (simp add: dsi_total_pop_def)
  have Wa: "0 \<le> dsi_Wa df" using V T by (simp add: dsi_Wa_def)
  have C: "0 < dsi_C df" by (simp add: dsi_C_def)
  have "0 \<le> (dsi_V df * dsi_Wa df + dsi_V df * 0.1 * 1.5) / dsi_C df + dsi_V df * 0.05"
    using V Wa C by (intro add_nonneg_nonneg divide_nonneg_pos mult_nonneg_nonneg) simp_all
  then show ?thesis by (simp add: dsi_normalised_def Let_def)
qed

lemma dp_result_range:
  "0 \<le> dsi (SankhyaDataProcessor_calculate_dsi self dn sn)
   \<and> dsi (SankhyaDataProcessor_calculate_dsi self dn sn) \<le> 10"
proof (cases "demographic_df self")
  case None
  then show ?thesis by (simp add: SankhyaDataProcessor_calculate_dsi_def)
next
  case (Some df0)
  have "of_int 0 \<le> dsi_normalised (district_rows df0 dn sn)"
    and "dsi_normalised (district_rows df0 dn sn) \<le> of_int 10"
    using dsi_normalised_range by simp_all
  then have "of_int 0 \<le> py_round (dsi_normalised (district_rows df0 dn sn)) 2
     \<and> py_round (dsi_normalised (district_rows df0 dn sn)) 2 \<le> of_int 10"
    by (rule py_round_bounds)
  then show ?thesis using Some by (simp add: SankhyaDataProcessor_calculate_dsi_def Let_def)
qed

lemma dp_result_status:
  "demographic_df self = Some df0 \<Longrightarrow> district_rows df0 dn sn \<noteq> [] \<Longrightarrow>
   status (SankhyaDataProcessor_calculate_dsi self dn sn)
     = status_of (dsi_normalised (district_rows df0 dn sn))"
  by (simp add: SankhyaDataProcessor_calculate_dsi_def Let_def)

lemma boundary_rows:
  "district_rows boundary_demographic ''Patna'' (Some ''Bihar'') = boundary_demographic"
  by (simp add: district_rows_def boundary_demographic_def)

lemma boundary_normalised: "dsi_normalised boundary_demographic = 4533 / 1375"
  by (simp add: dsi_normalised_def dsi_V_def dsi_Wa_def dsi_C_def dsi_total_pop_def
      boundary_demographic_def Let_def)

lemma boundary_components:
  "dsi_V boundary_demographic = 12 \<and> dsi_C boundary_demographic = 1
   \<and> dsi_Wa boundary_demographic = 300 / 11"
  by (simp add: dsi_V_def dsi_Wa_def dsi_C_def dsi_total_pop_def boundary_demographic_def)

text \<open>
  C1. Both paths keep the DSI in \<open>[0, 10]\<close> (the lemmas above), and \<open>get_dsi_status\<close>
  of generate\_data.py, which classifies the rounded value it is given, has \<open>medium\<close> for
  3.3. In data\_processor.py the status is taken from the index before it is rounded and
  the \<open>dsi\<close> entry after: for a district with 32 rows aged 5 to 17 and 12 adults the
  index is 4533/1375 = 3.2967.., so \<open>calculate_dsi\<close> returns \<open>dsi\<close> 3.3 together with
  status \<open>low\<close>, where the claim has \<open>medium\<close> for a DSI of 3.3.
\<close>

theorem reported_dsi_on_threshold_is_low:
  "SankhyaDataProcessor_calculate_dsi boundary_processor ''Patna'' (Some ''Bihar'')
     = Dsi_full ''Patna'' (Some ''Bihar'') 3.3 ''low'' 12 1 27.3
   \<and> dsi_normalised boundary_demographic = 4533 / 1375
   \<and> get_dsi_status (Finite 3.3) = ''medium''"
proof -
  have "SankhyaDataProcessor_calculate_dsi boundary_processor ''Patna'' (Some ''Bihar'')
     = Dsi_full ''Patna'' (Some ''Bihar'') 3.3 ''low'' 12 1 27.3"
    by (simp add: SankhyaDataProcessor_calculate_dsi_def boundary_processor_def Let_def
        boundary_rows boundary_normalised boundary_components status_of_def py_int_def
        py_round_def round_half_even_def)
      (simp add: boundary_demographic_def)
  moreover have "get_dsi_status (Finite 3.3) = ''medium''"
    by (simp add: get_dsi_status_def)
  ultimately show ?thesis using boundary_normalised by blast
qed

subsection \<open>A district that is not in the table, and no table\<close>

text \<open>
  C9. With no demographic table loaded \<open>calculate_dsi\<close> returns
  \<open>{'dsi': 0, 'status': 'no_data'}\<close>; for a district that does not occur in the table
  it returns \<open>{'dsi': 0, 'status': 'not_found'}\<close>. Neither status is one of \<open>low\<close>,
  \<open>medium\<close>, \<open>critical\<close>, and the short dictionary has no \<open>volume\<close>, \<open>capacity\<close> or
  \<open>adult_percent\<close> key.
\<close>

theorem calculate_dsi_no_data_not_found:
  "(demographic_df self = None \<longrightarrow>
      SankhyaDataProcessor_calculate_dsi self dn sn = Dsi_short 0 ''no_data'')
   \<and> (\<forall>df0. demographic_df self = Some df0 \<and> dn \<notin> set (map demo_district df0) \<longrightarrow>
         SankhyaDataProcessor_calculate_dsi self dn sn = Dsi_short 0 ''not_found'')
   \<and> ''no_data'' \<notin> {''low'', ''medium'', ''critical''}
   \<and> ''not_found'' \<notin> {''low'', ''medium'', ''critical''}
   \<and> dict_keys (Dsi_short d s) = [''dsi'', ''status'']
   \<and> ''volume'' \<notin> set (dict_keys (Dsi_short d s))
   \<and> ''capacity'' \<notin> set (dict_keys (Dsi_short d s))
   \<and> ''adult_percent'' \<notin> set (dict_keys (Dsi_short d s))"
proof -
  have nf: "district_rows df0 dn sn = []" if "dn \<notin> set (map demo_district df0)" for df0
    using that by (auto simp: district_rows_def filter_empty_conv)
  show ?thesis
    by (auto simp: SankhyaDataProcessor_calculate_dsi_def Let_def nf)
qed

theorem calculate_dsi_no_data_not_found_witness:
  "demographic_df (load_data no_files) = None
   \<and> SankhyaDataProcessor_calculate_dsi (load_data no_files) ''Patna'' None
       = Dsi_short 0 ''no_data''
   \<and> demographic_df example_processor = Some example_demographic
   \<and> ''Gaya'' \<notin> set (map demo_district example_demographic)
   \<and> SankhyaDataProcessor_calculate_dsi example_processor ''Gaya'' (Some ''Bihar'')
       = Dsi_short 0 ''not_found''"
  using calculate_dsi_no_data_not_found [of "load_data no_files" "''Patna''" None]
    calculate_dsi_no_data_not_found [of example_processor "''Gaya''" "Some ''Bihar''"]
  by (simp add: load_data_def no_files_def example_processor_def example_demographic_def)


subsection \<open>A district with no population\<close>

lemma groupby_keys_single: "groupby_keys key [r] = [key r]"
  by (simp add: groupby_keys_def)

text \<open>
  In data\_processor.py a total of 0 gives adult percent 0, index 0 and status \<open>low\<close>.
\<close>

lemma dp_zero_population:
  assumes "dsi_total_pop df = 0"
  shows "dsi_Wa df = 0 \<and> dsi_normalised df = 0 \<and> status_of (dsi_normalised df) = ''low''"
proof -
  have "real (sum_list (map demo_age_5_17 df)) + real (sum_list (map demo_age_17_plus df)) = 0"
    using assms by (simp add: dsi_total_pop_def)
  then have "real (sum_list (map demo_age_5_17 df) + sum_list (map demo_age_17_plus df)) = 0"
    by simp
  then have "sum_list (map demo_age_5_17 df) + sum_list (map demo_age_17_plus df) = 0"
    by (simp only: of_nat_eq_0_iff)
  then have V: "dsi_V df = 0" by (simp add: dsi_V_def)
  show ?thesis using assms V by (simp add: dsi_Wa_def dsi_normalised_def Let_def status_of_def)
qed

text \<open>
  C3. In generate\_data.py a district whose rows sum to a total population of 0 raises
  nothing, but its adult percent is NaN, its DSI is NaN and its status is \<open>critical\<close>,
  where the claim has 0, 0 and \<open>low\<close>.
\<close>

theorem process_demographic_data_zero_population:
  "process_demographic_data (Some zero_population_demographic)
     = Some [\<lparr>agg_state = ''Bihar'', agg_district = ''Patna'', agg_demo_age_5_17 = 0,
              agg_demo_age_17_plus = 0, total_population = 0, adult_percent = NaN,
              agg_capacity = 1, agg_dsi = NaN, agg_status = ''critical'', senior_count = 0\<rparr>]"
  by (simp add: process_demographic_data_def zero_population_demographic_def groupby_keys_single
      demographic_agg_row_def group_sum_def Let_def calculate_dsi_def seasonal_default_def
      repeat_rate_default_def py_min_def py_max_def get_dsi_status_def py_int_def)

subsection \<open>The two DSI call sites\<close>

lemma example_agg:
  "process_demographic_data (Some example_demographic)
     = Some [\<lparr>agg_state = ''Bihar'', agg_district = ''Patna'', agg_demo_age_5_17 = 10,
              agg_demo_age_17_plus = 40, total_population = 50, adult_percent = Finite 80,
              agg_capacity = 1, agg_dsi = Finite (1 / 25), agg_status = ''low'',
              senior_count = 6\<rparr>]"
  by (simp add: process_demographic_data_def example_demographic_def groupby_keys_single
      demographic_agg_row_def group_sum_def Let_def calculate_dsi_def seasonal_default_def
      repeat_rate_default_def py_min_def py_max_def get_dsi_status_def py_int_def
      py_round_def round_half_even_def)

lemma example_dp:
  "SankhyaDataProcessor_calculate_dsi example_processor ''Patna'' (Some ''Bihar'')
     = Dsi_full ''Patna'' (Some ''Bihar'') 10 ''critical'' 40 1 80"
  by (simp add: SankhyaDataProcessor_calculate_dsi_def example_processor_def
      district_rows_def example_demographic_def Let_def dsi_normalised_def dsi_V_def dsi_Wa_def
      dsi_C_def dsi_total_pop_def status_of_def py_int_def py_round_def round_half_even_def)

text \<open>
  C2. For one district with 10 rows aged 5 to 17 and 40 adults (volume 40, adult percent 80,
  capacity 1 at both call sites) generate\_data.py returns the formula's value with the
  divisor 1000, which is 0.04, and data\_processor.py returns 10, which is the formula's
  value for neither 100 nor 1000: the two call sites share no scale divisor, and the second
  multiplies the volume by the percentage itself.
\<close>

theorem dsi_call_sites_disagree:
  "process_demographic_data (Some example_demographic)
     = Some [\<lparr>agg_state = ''Bihar'', agg_district = ''Patna'', agg_demo_age_5_17 = 10,
              agg_demo_age_17_plus = 40, total_population = 50, adult_percent = Finite 80,
              agg_capacity = 1, agg_dsi = Finite (dsi_spec 1000 40 80 1), agg_status = ''low'',
              senior_count = 6\<rparr>]
   \<and> SankhyaDataProcessor_calculate_dsi example_processor ''Patna'' (Some ''Bihar'')
       = Dsi_full ''Patna'' (Some ''Bihar'') 10 ''critical'' 40 1 80
   \<and> dsi_spec 1000 40 80 1 = 1 / 25
   \<and> dsi_spec 100 40 80 1 = 2 / 5"
  by (simp add: example_agg example_dp dsi_spec_def Let_def)

subsection \<open>Migration corridors\<close>

lemma groupby_keys_set: "set (groupby_keys key df) = key ` set df"
  by (simp add: groupby_keys_def)

lemma groupby_keys_distinct: "distinct (groupby_keys key df)"
  by (simp add: groupby_keys_def)

lemma map_of_sort_reverse:
  assumes "distinct (map fst xs)"
  shows "map_of (sort_reverse f xs) = map_of xs"
proof -
  have d: "distinct (map fst (sort_reverse f xs))"
    using assms by (simp add: sort_reverse_def distinct_map)
  have s: "set (sort_reverse f xs) = set xs" by (simp add: sort_reverse_def)
  show ?thesis using d assms s by (simp add: map_of_inject_set)
qed

lemma map_of_keyed:
  "map_of (map (\<lambda>s. (s, g s)) ks) k = (if k \<in> set ks then Some (g k) else None)"
  by (induction ks) auto

lemma state_volumes_eq:
  "state_volumes bio_df s =
     (if s \<in> set (map bagg_state bio_df)
      then Some (group_sum bagg_state total_updates bio_df s) else None)"
proof -
  have "distinct (map fst (map (\<lambda>s. (s, group_sum bagg_state total_updates bio_df s))
          (groupby_keys bagg_state bio_df)))"
    by (simp add: comp_def groupby_keys_distinct)
  then show ?thesis
    by (simp add: state_volumes_def state_updates_def map_of_sort_reverse map_of_keyed
        groupby_keys_set)
qed

lemma py_int_div10: "py_int (real n / 10) = int (n div 10)"
proof -
  have "\<lfloor>real n / real 10\<rfloor> = int (n div 10)"
    by (simp only: floor_divide_of_nat_eq)
  then show ?thesis by (simp add: py_int_def)
qed

lemma py_int_tenth: "py_int (real n * 0.1) = int (n div 10)"
  using py_int_div10 [of n] by simp

text \<open>
  C7 as stated fails: the volume is cut to an integer, and a state with 15 updates gives
  the corridor volume 1, not 1.5.
\<close>

theorem corridor_volume_truncated:
  "state_volumes example_bio_agg ''Bihar'' = Some 15
   \<and> origin (generate_migration_corridors example_bio_agg ! 0) = ''Bihar''
   \<and> volume (generate_migration_corridors example_bio_agg ! 0) = 1
   \<and> real_of_int (volume (generate_migration_corridors example_bio_agg ! 0)) \<noteq> real 15 * 0.1"
  by (simp add: generate_migration_corridors_def corridors_static_def state_volumes_eq
      example_bio_agg_def group_sum_def py_int_def)

text \<open>
  C7, amended. The corridors come out in the order of the static table, with its origins,
  destinations and change percents. The volume of a corridor whose origin state occurs in
  the biometric aggregate is a tenth of that state's summed updates cut to an integer;
  for any other origin the lookup falls back to 50000 and the volume is 5000. No lookup
  can fail.
\<close>

theorem corridor_volumes:
  "map (\<lambda>c. (origin c, destination c, change_percent c)) (generate_migration_corridors bio_df)
     = corridors_static
   \<and> (\<forall>c \<in> set (generate_migration_corridors bio_df).
         volume c =
           (if origin c \<in> set (map bagg_state bio_df)
            then int (sum_list (map total_updates (filter (\<lambda>r. bagg_state r = origin c) bio_df)) div 10)
            else 5000))"
proof -
  have v: "py_int ((case state_volumes bio_df s of None \<Rightarrow> 50000 | Some v \<Rightarrow> real v) / 10)
      = (if s \<in> set (map bagg_state bio_df)
         then int (sum_list (map total_updates (filter (\<lambda>r. bagg_state r = s) bio_df)) div 10)
         else 5000)" for s
  proof (cases "s \<in> set (map bagg_state bio_df)")
    case True
    then show ?thesis by (simp add: state_volumes_eq py_int_div10 group_sum_def)
  next
    case False
    then show ?thesis by (simp add: state_volumes_eq py_int_def)
  qed
  define mk where "mk = (\<lambda>t :: string \<times> string \<times> int.
      \<lparr>origin = fst t, destination = fst (snd t), change_percent = snd (snd t),
       volume = py_int ((case state_volumes bio_df (fst t) of None \<Rightarrow> 50000
                         | Some v \<Rightarrow> real v) * 0.1)\<rparr>)"
  have gen: "generate_migration_corridors bio_df = map mk corridors_static"
    by (simp add: generate_migration_corridors_def Let_def case_prod_beta mk_def)
  have order: "map (\<lambda>c. (origin c, destination c, change_percent c)) (map mk ts) = ts" for ts
    by (induction ts) (simp_all add: mk_def)
  have vol: "\<forall>c \<in> set (map mk ts). volume c =
           (if origin c \<in> set (map bagg_state bio_df)
            then int (sum_list (map total_updates (filter (\<lambda>r. bagg_state r = origin c) bio_df)) div 10)
            else 5000)" for ts
    by (induction ts) (simp_all add: mk_def v del: set_map)
  show ?thesis unfolding gen using order vol by blast
qed

theorem corridor_volumes_witness:
  "generate_migration_corridors example_bio_agg =
     [\<lparr>origin = ''Bihar'', destination = ''Delhi'', change_percent = 42, volume = 1\<rparr>,
      \<lparr>origin = ''Uttar Pradesh'', destination = ''Maharashtra'', change_percent = 28, volume = 5000\<rparr>,
      \<lparr>origin = ''Rajasthan'', destination = ''Gujarat'', change_percent = 15, volume = 5000\<rparr>,
      \<lparr>origin = ''Madhya Pradesh'', destination = ''Karnataka'', change_percent = 8, volume = 5000\<rparr>,
      \<lparr>origin = ''Odisha'', destination = ''Tamil Nadu'', change_percent = 5, volume = 5000\<rparr>,
      \<lparr>origin = ''West Bengal'', destination = ''Kerala'', change_percent = 3, volume = 5000\<rparr>,
      \<lparr>origin = ''Jharkhand'', destination = ''Haryana'', change_percent = 12, volume = 5000\<rparr>]"
  using corridor_volumes [of example_bio_agg]
  by (simp add: generate_migration_corridors_def corridors_static_def state_volumes_eq
      example_bio_agg_def group_sum_def py_int_tenth py_int_def)


subsection \<open>The ranking of stressed districts\<close>


lemma sort_reverse_length: "length (sort_reverse k xs) = length xs"
  by (simp add: sort_reverse_def)









subsection \<open>Anomalies\<close>

lemma example_demo_2000_real:
  "process_demographic_data (Some [\<lparr>demo_state = ''Bihar'', demo_district = ''Patna'',
      demo_age_5_17 = 1000, demo_age_17_plus = 1000\<rparr>]) = Some example_demo_2000"
  by (simp add: process_demographic_data_def example_demo_2000_def groupby_keys_single
      demographic_agg_row_def group_sum_def Let_def calculate_dsi_def seasonal_default_def
      repeat_rate_default_def py_min_def py_max_def get_dsi_status_def py_int_def
      py_round_def round_half_even_def)

lemma gen_145:
  "generate_anomalies example_bio_145 example_demo_2000 =
     [\<lparr>an_state = ''Bihar'', an_district = ''Patna'', deviation = 45, an_type = ''surge'',
       severity = ''warning''\<rparr>]"
  by (simp add: generate_anomalies_def merged_rows_def merge_inner_def anomaly_of_row_def
      merged_deviation_def expected_updates_def example_bio_145_def example_demo_2000_def
      py_round_def round_half_even_def sort_reverse_def Let_def)

lemma gen_170:
  "generate_anomalies example_bio_170 example_demo_2000 =
     [\<lparr>an_state = ''Bihar'', an_district = ''Patna'', deviation = 70, an_type = ''surge'',
       severity = ''warning''\<rparr>]"
  by (simp add: generate_anomalies_def merged_rows_def merge_inner_def anomaly_of_row_def
      merged_deviation_def expected_updates_def example_bio_170_def example_demo_2000_def
      py_round_def round_half_even_def sort_reverse_def Let_def)

text \<open>
  C4. With 100 expected updates (a population of 2000) and 145 actual ones the deviation is
  45 and \<open>generate_anomalies\<close> emits a surge with severity \<open>warning\<close>, as claimed. With
  170 actual updates the deviation is 70 and the severity is still \<open>warning\<close>, because the
  critical cut-off of \<open>generate_anomalies\<close> is 80; the claim has \<open>critical\<close> above 60, and
  that is the cut-off \<open>detect_anomalies\<close> of data\_processor.py applies.
\<close>

theorem generate_anomalies_severity_cutoff:
  "expected_updates (hd example_demo_2000) = 100
   \<and> total_updates (hd example_bio_145) = 145
   \<and> generate_anomalies example_bio_145 example_demo_2000 =
       [\<lparr>an_state = ''Bihar'', an_district = ''Patna'', deviation = 45, an_type = ''surge'',
         severity = ''warning''\<rparr>]
   \<and> total_updates (hd example_bio_170) = 170
   \<and> generate_anomalies example_bio_170 example_demo_2000 =
       [\<lparr>an_state = ''Bihar'', an_district = ''Patna'', deviation = 70, an_type = ''surge'',
         severity = ''warning''\<rparr>]
   \<and> severity (anomaly_of_group df k) =
       (if 60 < \<bar>group_deviation df k\<bar> then ''critical'' else ''warning'')"
proof -
  have "expected_updates (hd example_demo_2000) = 100"
    by (simp add: expected_updates_def example_demo_2000_def)
  moreover have "total_updates (hd example_bio_145) = 145 \<and> total_updates (hd example_bio_170) = 170"
    by (simp add: example_bio_145_def example_bio_170_def)
  moreover have "severity (anomaly_of_group df k) =
       (if 60 < \<bar>group_deviation df k\<bar> then ''critical'' else ''warning'')"
    by (simp add: anomaly_of_group_def)
  ultimately show ?thesis using gen_145 gen_170 by blast
qed

subsection \<open>Blue zones and digital exclusion zones\<close>

lemma drop_duplicates_from_distinct:
  "distinct (map key xs) \<Longrightarrow>
   drop_duplicates_from key seen xs = filter (\<lambda>x. key x \<notin> set seen) xs"
proof (induction xs arbitrary: seen)
  case Nil
  then show ?case by simp
next
  case (Cons x xs)
  have nx: "\<forall>y \<in> set xs. key y \<noteq> key x"
    using Cons.prems by (metis distinct.simps(2) imageI list.simps(9) set_map)
  have "filter (\<lambda>y. key y \<notin> set (key x # seen)) xs = filter (\<lambda>y. key y \<notin> set seen) xs"
    using nx by (intro filter_cong) auto
  then show ?case using Cons by simp
qed

lemma drop_duplicates_from_append:
  "distinct (map key xs) \<Longrightarrow> distinct (map key ys) \<Longrightarrow>
   drop_duplicates_from key seen (xs @ ys) =
     filter (\<lambda>x. key x \<notin> set seen) xs
     @ filter (\<lambda>y. key y \<notin> set seen \<and> key y \<notin> key ` set xs) ys"
proof (induction xs arbitrary: seen)
  case Nil
  then show ?case by (simp add: drop_duplicates_from_distinct)
next
  case (Cons x xs)
  show ?case
  proof (cases "key x \<in> set seen")
    case True
    have "filter (\<lambda>y. key y \<notin> set seen \<and> key y \<notin> key ` set xs) ys
        = filter (\<lambda>y. key y \<notin> set seen \<and> key y \<notin> key ` set (x # xs)) ys"
      using True by (intro filter_cong) auto
    then show ?thesis using Cons True by simp
  next
    case False
    have nx: "\<forall>y \<in> set xs. key y \<noteq> key x"
      using Cons.prems(1) by (metis distinct.simps(2) imageI list.simps(9) set_map)
    have a: "filter (\<lambda>y. key y \<notin> set (key x # seen)) xs = filter (\<lambda>y. key y \<notin> set seen) xs"
      using nx by (intro filter_cong) auto
    have b: "filter (\<lambda>y. key y \<notin> set (key x # seen) \<and> key y \<notin> key ` set xs) ys
        = filter (\<lambda>y. key y \<notin> set seen \<and> key y \<notin> key ` set (x # xs)) ys"
      by (intro filter_cong) auto
    have "drop_duplicates_from key seen ((x # xs) @ ys)
        = x # drop_duplicates_from key (key x # seen) (xs @ ys)"
      using False by simp
    also have "\<dots> = x # (filter (\<lambda>y. key y \<notin> set (key x # seen)) xs
        @ filter (\<lambda>y. key y \<notin> set (key x # seen) \<and> key y \<notin> key ` set xs) ys)"
      using Cons.IH [of "key x # seen"] Cons.prems by simp
    also have "\<dots> = filter (\<lambda>y. key y \<notin> set seen) (x # xs)
        @ filter (\<lambda>y. key y \<notin> set seen \<and> key y \<notin> key ` set (x # xs)) ys"
      using False by (simp only: a b) simp
    finally show ?thesis .
  qed
qed

lemma drop_duplicates_append:
  "distinct (map key xs) \<Longrightarrow> distinct (map key ys) \<Longrightarrow>
   drop_duplicates key (xs @ ys) = xs @ filter (\<lambda>y. key y \<notin> key ` set xs) ys"
  by (simp add: drop_duplicates_def drop_duplicates_from_append)

lemma district_data_keys:
  "map (\<lambda>z. (zn_state z, zn_district z)) (district_data demo_df bio_df enrol_df)
     = groupby_keys (\<lambda>r. (demo_state r, demo_district r)) demo_df"
  by (simp add: district_data_def Let_def comp_def)

lemma district_data_distinct:
  "distinct (map (\<lambda>z. (zn_state z, zn_district z)) (district_data demo_df bio_df enrol_df))"
  by (simp only: district_data_keys groupby_keys_distinct)

lemma two_zone_frames:
  fixes key :: "'a \<Rightarrow> 'k" and ty :: "'a \<Rightarrow> string"
  assumes dist: "distinct (map key data)"
    and kB: "\<And>z. key (tB z) = key z" and kD: "\<And>z. key (tD z) = key z"
    and yB: "\<And>z. ty (tB z) = ''blue_zone''" and yD: "\<And>z. ty (tD z) = ''dez''"
  shows "filter (\<lambda>z. ty z = ''blue_zone'')
           (drop_duplicates key (map tB (filter PB data) @ map tD (filter PD data)))
         = map tB (filter PB data)
     \<and> filter (\<lambda>z. ty z = ''dez'')
           (drop_duplicates key (map tB (filter PB data) @ map tD (filter PD data)))
         = map tD (filter (\<lambda>z. PD z \<and> \<not> PB z) data)
     \<and> distinct (map key (drop_duplicates key (map tB (filter PB data) @ map tD (filter PD data))))"
proof -
  let ?blue = "map tB (filter PB data)" and ?dez = "map tD (filter PD data)"
  have mB: "map key ?blue = map key (filter PB data)" by (simp add: kB)
  have mD: "map key ?dez = map key (filter PD data)" by (simp add: kD)
  have dB: "distinct (map key ?blue)" unfolding mB using dist by (rule distinct_map_filter)
  have dD: "distinct (map key ?dez)" unfolding mD using dist by (rule distinct_map_filter)
  have inj: "inj_on key (set data)" using dist by (simp add: distinct_map)
  have inB: "(key z \<in> key ` set ?blue) = PB z" if "z \<in> set data" for z
  proof
    assume "key z \<in> key ` set ?blue"
    then obtain w where w: "w \<in> set data" "PB w" "key z = key w"
      by (auto simp: kB)
    then have "z = w" using inj that by (meson inj_onD)
    then show "PB z" using w by simp
  next
    assume "PB z"
    then have "tB z \<in> set ?blue" using that by simp
    then have "key (tB z) \<in> key ` set ?blue" by (rule imageI)
    then show "key z \<in> key ` set ?blue" by (simp only: kB)
  qed
  have rest: "filter (\<lambda>y. key y \<notin> key ` set ?blue) ?dez
      = map tD (filter (\<lambda>z. PD z \<and> \<not> PB z) data)"
  proof -
    have "filter (\<lambda>y. key y \<notin> key ` set ?blue) ?dez
        = map tD (filter (\<lambda>z. key z \<notin> key ` set ?blue) (filter PD data))"
      by (simp add: filter_map comp_def kD)
    also have "\<dots> = map tD (filter (\<lambda>z. PD z \<and> key z \<notin> key ` set ?blue) data)"
      by (simp add: conj_commute)
    also have "filter (\<lambda>z. PD z \<and> key z \<notin> key ` set ?blue) data
        = filter (\<lambda>z. PD z \<and> \<not> PB z) data"
      by (rule filter_cong [OF refl]) (simp only: inB)
    finally show ?thesis .
  qed
  have eq: "drop_duplicates key (?blue @ ?dez)
      = ?blue @ map tD (filter (\<lambda>z. PD z \<and> \<not> PB z) data)"
    by (simp only: drop_duplicates_append [OF dB dD] rest)
  have ne: "''dez'' \<noteq> ''blue_zone''" by simp
  have f1: "filter (\<lambda>z. ty z = ''blue_zone'') ?blue = ?blue"
    by (rule filter_True) (auto simp: yB)
  have f2: "filter (\<lambda>z. ty z = ''blue_zone'') (map tD xs) = []" for xs
    by (simp add: filter_empty_conv yD)
  have f3: "filter (\<lambda>z. ty z = ''dez'') ?blue = []"
    by (simp add: filter_empty_conv yB)
  have f4: "filter (\<lambda>z. ty z = ''dez'') (map tD xs) = map tD xs" for xs
    by (rule filter_True) (auto simp: yD)
  have c1: "filter (\<lambda>z. ty z = ''blue_zone'') (drop_duplicates key (?blue @ ?dez)) = ?blue"
    unfolding eq by (simp only: filter_append f1 f2 append_Nil2)
  have c2: "filter (\<lambda>z. ty z = ''dez'') (drop_duplicates key (?blue @ ?dez))
      = map tD (filter (\<lambda>z. PD z \<and> \<not> PB z) data)"
    unfolding eq by (simp only: filter_append f3 f4 append_Nil)
  have kk: "map key (?blue @ map tD (filter (\<lambda>z. PD z \<and> \<not> PB z) data))
      = map key (filter PB data) @ map key (filter (\<lambda>z. PD z \<and> \<not> PB z) data)"
    by (simp add: kB kD)
  have "distinct (map key (filter PB data) @ map key (filter (\<lambda>z. PD z \<and> \<not> PB z) data))"
  proof -
    have a: "distinct (map key (filter PB data))" using dist by (rule distinct_map_filter)
    have b: "distinct (map key (filter (\<lambda>z. PD z \<and> \<not> PB z) data))"
      using dist by (rule distinct_map_filter)
    have c: "set (map key (filter PB data)) \<inter> set (map key (filter (\<lambda>z. PD z \<and> \<not> PB z) data)) = {}"
    proof (rule ccontr)
      assume "\<not> ?thesis"
      then obtain u v where "u \<in> set data" "PB u" "v \<in> set data" "\<not> PB v" "key u = key v"
        by auto
      then show False using inj by (metis inj_onD)
    qed
    show ?thesis using a b c by (simp only: distinct_append)
  qed
  then have c3: "distinct (map key (drop_duplicates key (?blue @ ?dez)))"
    unfolding eq kk .
  show ?thesis using c1 c2 c3 by blast
qed

text \<open>
  C5. Of the combined output, the rows marked \<open>blue_zone\<close> are exactly the districts whose
  adult ratio is at or above the 0.80 quantile of all adult ratios of the run, in the order
  of the district table; the rows marked \<open>dez\<close> are exactly the districts whose activity
  per capita is at or below the 0.20 quantile and that are not blue zones; no district
  occurs twice, so one that satisfies both tests appears once, as a blue zone.
\<close>

theorem zone_classification:
  "(let data = district_data demo_df bio_df enrol_df;
        zones = calculate_blue_zone_dez demo_df bio_df enrol_df
    in filter (\<lambda>z. zone_type z = ''blue_zone'') zones
         = map (\<lambda>z. z\<lparr>zone_type := ''blue_zone'',
                        zone_reason := ''High senior population (60+ age group)''\<rparr>)
             (filter (\<lambda>z. fle (quantile (map adult_ratio data) 0.80) (Finite (adult_ratio z))) data)
     \<and> filter (\<lambda>z. zone_type z = ''dez'') zones
         = map (\<lambda>z. z\<lparr>zone_type := ''dez'', zone_reason := ''Low digital enrollment activity''\<rparr>)
             (filter (\<lambda>z. fle (Finite (activity_per_capita z))
                            (quantile (map activity_per_capita data) 0.20)
                        \<and> \<not> fle (quantile (map adult_ratio data) 0.80) (Finite (adult_ratio z)))
                data)
     \<and> distinct (map (\<lambda>z. (zn_state z, zn_district z)) zones)
     \<and> map (\<lambda>z. (zn_state z, zn_district z)) data
         = groupby_keys (\<lambda>r. (demo_state r, demo_district r)) demo_df)"
proof -
  define data where "data = district_data demo_df bio_df enrol_df"
  have dist: "distinct (map (\<lambda>z. (zn_state z, zn_district z)) data)"
    unfolding data_def by (rule district_data_distinct)
  have zones: "calculate_blue_zone_dez demo_df bio_df enrol_df =
      drop_duplicates (\<lambda>z. (zn_state z, zn_district z))
        (map (\<lambda>z. z\<lparr>zone_type := ''blue_zone'',
                        zone_reason := ''High senior population (60+ age group)''\<rparr>)
           (filter (\<lambda>z. fle (quantile (map adult_ratio data) 0.80) (Finite (adult_ratio z))) data)
         @ map (\<lambda>z. z\<lparr>zone_type := ''dez'', zone_reason := ''Low digital enrollment activity''\<rparr>)
             (filter (\<lambda>z. fle (Finite (activity_per_capita z))
                            (quantile (map activity_per_capita data) 0.20)) data))"
    by (simp add: calculate_blue_zone_dez_def Let_def data_def blue_zones_def dez_zones_def
        senior_threshold_def activity_threshold_def)
  have frames: "filter (\<lambda>z. zone_type z = ''blue_zone'')
        (calculate_blue_zone_dez demo_df bio_df enrol_df)
         = map (\<lambda>z. z\<lparr>zone_type := ''blue_zone'',
                        zone_reason := ''High senior population (60+ age group)''\<rparr>)
             (filter (\<lambda>z. fle (quantile (map adult_ratio data) 0.80) (Finite (adult_ratio z))) data)
     \<and> filter (\<lambda>z. zone_type z = ''dez'') (calculate_blue_zone_dez demo_df bio_df enrol_df)
         = map (\<lambda>z. z\<lparr>zone_type := ''dez'', zone_reason := ''Low digital enrollment activity''\<rparr>)
             (filter (\<lambda>z. fle (Finite (activity_per_capita z))
                            (quantile (map activity_per_capita data) 0.20)
                        \<and> \<not> fle (quantile (map adult_ratio data) 0.80) (Finite (adult_ratio z)))
                data)
     \<and> distinct (map (\<lambda>z. (zn_state z, zn_district z))
          (calculate_blue_zone_dez demo_df bio_df enrol_df))"
    unfolding zones by (rule two_zone_frames [OF dist]) simp_all
  have keys: "map (\<lambda>z. (zn_state z, zn_district z)) data
         = groupby_keys (\<lambda>r. (demo_state r, demo_district r)) demo_df"
    unfolding data_def by (rule district_data_keys)
  show ?thesis
    unfolding Let_def data_def [symmetric] using frames keys by blast
qed

lemma example_zones:
  "calculate_blue_zone_dez example_demographic [] [] =
     [\<lparr>zn_state = ''Bihar'', zn_district = ''Patna'', zn_demo_age_5_17 = 10,
       zn_demo_age_17_plus = 40, total = 50, adult_ratio = 4 / 5, zn_bio_count = 0,
       zn_enrol_count = 0, activity_per_capita = 0, zone_type = ''blue_zone'',
       zone_reason = ''High senior population (60+ age group)''\<rparr>]"
  by (simp add: calculate_blue_zone_dez_def district_data_def example_demographic_def
      groupby_keys_single group_sum_def group_size_def Let_def blue_zones_def dez_zones_def
      senior_threshold_def activity_threshold_def quantile_def drop_duplicates_def)

theorem zone_classification_witness:
  "calculate_blue_zone_dez example_demographic [] [] =
     [\<lparr>zn_state = ''Bihar'', zn_district = ''Patna'', zn_demo_age_5_17 = 10,
       zn_demo_age_17_plus = 40, total = 50, adult_ratio = 4 / 5, zn_bio_count = 0,
       zn_enrol_count = 0, activity_per_capita = 0, zone_type = ''blue_zone'',
       zone_reason = ''High senior population (60+ age group)''\<rparr>]
   \<and> distinct (map (\<lambda>z. (zn_state z, zn_district z))
        (calculate_blue_zone_dez example_demographic [] []))"
proof -
  from zone_classification [of example_demographic "[]" "[]"]
  have "distinct (map (\<lambda>z. (zn_state z, zn_district z))
        (calculate_blue_zone_dez example_demographic [] []))"
    unfolding Let_def by blast
  with example_zones show ?thesis by blast
qed


subsection \<open>Missing input files\<close>

text \<open>
  In data\_processor.py a file that is absent leaves its table unloaded, and every view of
  an unloaded table is empty (\<open>calculate_dsi\<close> gives its \<open>no_data\<close> record).
\<close>

lemma load_data_absent:
  "(master_demographic_data fs = Absent \<longrightarrow> demographic_df (load_data fs) = None)
   \<and> (master_enrolment_data fs = Absent \<longrightarrow> enrolment_df (load_data fs) = None)
   \<and> (master_biometric_data fs = Absent \<longrightarrow> biometric_df (load_data fs) = None)"
  by (simp add: load_data_def Let_def split: csv_file.splits)

lemma processor_views_degrade:
  "(demographic_df self = None \<longrightarrow>
      SankhyaDataProcessor_calculate_dsi self dn sn = Dsi_short 0 ''no_data''
      \<and> get_top_stressed_districts self limit = [])
   \<and> (biometric_df self = None \<longrightarrow> get_migration_flows self = [] \<and> detect_anomalies self = [])"
  by (simp add: SankhyaDataProcessor_calculate_dsi_def get_top_stressed_districts_def
      get_migration_flows_def detect_anomalies_def)

text \<open>In ai\_forecaster.py any absent file ends the run with an exception.\<close>

lemma load_real_data_absent:
  "master_demographic_data fs = Absent \<or> master_biometric_data fs = Absent
     \<or> master_enrolment_data fs = Absent \<Longrightarrow>
   \<exists>e. load_real_data fs = Inl e \<and> (\<exists>e. run_ai_forecast rnd fs today = Inl e)"
  by (auto simp: load_real_data_def run_ai_forecast_def split: csv_file.splits sum.splits)

text \<open>
  C8. With the biometric file missing and the other two present, \<open>load_real_data\<close>
  raises \<open>FileNotFoundError\<close> and \<open>run_ai_forecast\<close> ends with it, returning neither
  the forecast nor the zones, where the claim has empty views and a run that goes on.
  The processor of data\_processor.py, on the same files, loads the demographic table and
  returns empty migration flows and anomalies.
\<close>

theorem missing_file_aborts_ai_forecast:
  "load_real_data biometric_missing = Inl FileNotFoundError
   \<and> run_ai_forecast rnd biometric_missing today = Inl FileNotFoundError
   \<and> biometric_df (load_data biometric_missing) = None
   \<and> demographic_df (load_data biometric_missing) = Some example_demographic
   \<and> get_migration_flows (load_data biometric_missing) = []
   \<and> detect_anomalies (load_data biometric_missing) = []"
  by (simp add: load_real_data_def run_ai_forecast_def biometric_missing_def load_data_def
      get_migration_flows_def detect_anomalies_def Let_def)



subsection \<open>The 7-day forecast\<close>

text \<open>
  The first uniform draws after \<open>np.random.seed(1)\<close> and \<open>np.random.seed(3)\<close>
  (0.417022004702574 and 0.5507979025745755), evaluated from the generator.
\<close>

lemma first_draw_seed_1:
  "mt19937_next_double (Suc 0) = (55971745 * 67108864 + 66919939) / 9007199254740992"
proof -
  have a: "drop_bit 5 (mt19937_temper (mt19937_gen (Suc 0) 0)) = 55971745" by code_simp
  have b: "drop_bit 6 (mt19937_temper (mt19937_gen (Suc 0) (Suc 0))) = 66919939" by code_simp
  show ?thesis by (simp add: mt19937_next_double_def Let_def a b)
qed

lemma first_draw_seed_3:
  "mt19937_next_double 3 = (73926843 * 67108864 + 4746266) / 9007199254740992"
proof -
  have a: "drop_bit 5 (mt19937_temper (mt19937_gen 3 0)) = 73926843" by code_simp
  have b: "drop_bit 6 (mt19937_temper (mt19937_gen 3 (Suc 0))) = 4746266" by code_simp
  show ?thesis by (simp add: mt19937_next_double_def Let_def a b)
qed

text \<open>
  The forecast of 1 May 2025 (a Thursday) over 400 biometric and 227 enrolment rows, a
  baseline of 20.9 a day, with exact arithmetic in place of the rounding: every value
  below is far enough from a whole number for the rounding not to matter.
\<close>

lemma forecast_nth:
  assumes "d < 7"
  shows "generate_7day_forecast rnd state_data today ! d =
     \<lparr>fc_date = dt_ordinal today + int d,
      day_name = day_names ! weekday (dt_ordinal today + int d),
      predicted_transactions = py_int (predicted_demand rnd (base_daily_of rnd state_data) today d),
      confidence = rnd (py_round (confidence_of rnd d) 2),
      low_estimate = py_int (rnd (predicted_demand rnd (base_daily_of rnd state_data) today d * rnd 0.85)),
      high_estimate = py_int (rnd (predicted_demand rnd (base_daily_of rnd state_data) today d * rnd 1.15))\<rparr>"
proof -
  have "d < length [0..<7]" using assms by simp
  then show ?thesis
    unfolding generate_7day_forecast_def Let_def
    by (simp only: nth_map nth_upt add_0 assms)
qed

lemma example_base: "base_daily_of id example_state_data = 209 / 10"
  by (simp add: base_daily_of_def example_state_data_def)

lemma example_variance_0:
  "variance_of id example_today 0 = 19 / 20 + (55971745 * 67108864 + 66919939) / 90071992547409920"
  by (simp add: variance_of_def np_random_uniform_def example_today_def first_draw_seed_1)

lemma example_demand_0:
  "predicted_demand id (209 / 10) example_today 0
     = 209 / 10 * (19 / 20 + (55971745 * 67108864 + 66919939) / 90071992547409920)"
  by (simp add: predicted_demand_def Let_def example_variance_0)
     (simp add: example_today_def weekday_def dow_factors_def seasonal_factor_def)

lemma example_variance_2:
  "variance_of id example_today 2 = 19 / 20 + (73926843 * 67108864 + 4746266) / 90071992547409920"
  by (simp add: variance_of_def np_random_uniform_def example_today_def first_draw_seed_3)

lemma example_demand_2:
  "predicted_demand id (209 / 10) example_today 2 =
     209 / 10 * (7 / 10) * (101 / 100)
       * (19 / 20 + (73926843 * 67108864 + 4746266) / 90071992547409920)"
  by (simp add: predicted_demand_def Let_def example_variance_2)
     (simp add: example_today_def weekday_def dow_factors_def seasonal_factor_def)

text \<open>
  C6 as stated fails: the low and high estimates are 0.85 and 1.15 times the demand
  before it is cut to an integer, not 0.85 and 1.15 times the integer prediction. On the
  third day of the forecast above the demand is 14.85, the prediction 14, and the
  estimates are 12 and 17, where the prediction times 0.85 and 1.15 gives 11.9 and 16.1.
\<close>

theorem forecast_estimates_not_of_integer_prediction:
  "predicted_transactions (generate_7day_forecast id example_state_data example_today ! 2) = 14
   \<and> low_estimate (generate_7day_forecast id example_state_data example_today ! 2) = 12
   \<and> high_estimate (generate_7day_forecast id example_state_data example_today ! 2) = 17
   \<and> real_of_int (high_estimate (generate_7day_forecast id example_state_data example_today ! 2))
       \<noteq> 1.15 * real_of_int (predicted_transactions
                 (generate_7day_forecast id example_state_data example_today ! 2))
   \<and> high_estimate (generate_7day_forecast id example_state_data example_today ! 2)
       \<noteq> py_int (1.15 * real_of_int (predicted_transactions
                 (generate_7day_forecast id example_state_data example_today ! 2)))
   \<and> low_estimate (generate_7day_forecast id example_state_data example_today ! 2)
       \<noteq> py_int (0.85 * real_of_int (predicted_transactions
                 (generate_7day_forecast id example_state_data example_today ! 2)))"
  by (simp add: forecast_nth example_base example_demand_2 py_int_def)

text \<open>
  What the proofs use of the rounding to doubles.
\<close>

lemma dr_mono: "double_rounding rnd \<Longrightarrow> x \<le> y \<Longrightarrow> rnd x \<le> rnd y"
  by (simp add: double_rounding_def)

lemma dr_idem: "double_rounding rnd \<Longrightarrow> rnd (rnd x) = rnd x"
  by (simp add: double_rounding_def)

lemma dr_zero: "double_rounding rnd \<Longrightarrow> rnd 0 = 0"
  by (simp add: double_rounding_def)

lemma dr_one: "double_rounding rnd \<Longrightarrow> rnd 1 = 1"
  by (simp add: double_rounding_def)

lemma dr_nonneg: "double_rounding rnd \<Longrightarrow> 0 \<le> x \<Longrightarrow> 0 \<le> rnd x"
  using dr_mono [of rnd 0 x] dr_zero [of rnd] by simp

lemma dr_close:
  assumes "double_rounding rnd" and "1 / 100 \<le> x" and "x \<le> 2"
  shows "\<bar>rnd x - x\<bar> \<le> 1 / 10 ^ 15"
proof -
  have "\<bar>rnd x - x\<bar> \<le> x / 2 ^ 53"
    using assms by (simp add: double_rounding_def)
  also have "\<dots> \<le> 2 / 2 ^ 53" using assms(3) by (simp add: divide_right_mono)
  also have "\<dots> \<le> 1 / 10 ^ 15" by simp
  finally show ?thesis .
qed

lemma dr_id: "double_rounding id"
  by (simp add: double_rounding_def)

lemma dr_interval:
  assumes "double_rounding rnd" and "1 / 100 \<le> x" and "x \<le> 2"
  shows "x - 1 / 1000000000000000 \<le> rnd x \<and> rnd x \<le> x + 1 / 1000000000000000"
proof -
  have "\<bar>rnd x - x\<bar> \<le> 1 / 10 ^ 15" by (rule dr_close [OF assms])
  then have "\<bar>rnd x - x\<bar> \<le> 1 / 1000000000000000" by simp
  then show ?thesis by (simp only: abs_diff_le_iff)
qed

text \<open>
  The generator yields 32-bit words, so the double it forms lies in \<open>[0, 1)\<close> and the
  variance factor between the doubles 0.95 and 1.05, up to the rounding of the last sum.
\<close>

lemma mt19937_fold_range:
  "0 \<le> s \<Longrightarrow> s < 4294967296 \<Longrightarrow>
   0 \<le> fold mt19937_seed_step ps s \<and> fold mt19937_seed_step ps s < 4294967296"
proof (induction ps arbitrary: s)
  case Nil
  then show ?case by simp
next
  case (Cons p ps)
  have "0 \<le> mt19937_seed_step p s" and "mt19937_seed_step p s < 4294967296"
    by (simp_all add: mt19937_seed_step_def)
  then show ?case using Cons.IH by simp
qed

lemma mt19937_key_range: "0 \<le> mt19937_key seed n \<and> mt19937_key seed n < 2 ^ 32"
proof -
  have "0 \<le> int seed mod 4294967296" and "int seed mod 4294967296 < 4294967296"
    by simp_all
  then show ?thesis
    unfolding mt19937_key_def using mt19937_fold_range by simp
qed

lemma mt19937_gen_range: "0 \<le> mt19937_gen seed kk \<and> mt19937_gen seed kk < 2 ^ 32"
proof -
  define k0 where "k0 = mt19937_key seed kk"
  define k1 where "k1 = mt19937_key seed (kk + 1)"
  define k2 where "k2 = mt19937_key seed (kk + 397)"
  define y where "y = (k0 AND 2147483648) OR (k1 AND 2147483647)"
  have r0: "0 \<le> k0" "k0 < 2 ^ 32" and r1: "0 \<le> k1" "k1 < 2 ^ 32" and r2: "0 \<le> k2" "k2 < 2 ^ 32"
    using mt19937_key_range by (simp_all add: k0_def k1_def k2_def)
  have a0: "0 \<le> k0 AND 2147483648" using r0 by simp
  have a1: "k0 AND 2147483648 < 2 ^ 32"
    using AND_upper1'' [of k0 "2 ^ 32" 2147483648] r0 by simp
  have b1: "k1 AND 2147483647 < 2 ^ 32"
    using AND_upper1'' [of k1 "2 ^ 32" 2147483647] r1 by simp
  have y0: "0 \<le> y" using r0 r1 by (simp add: y_def)
  have y1: "y < 2 ^ 32" unfolding y_def by (rule OR_upper [OF a0 a1 b1])
  have d0: "0 \<le> drop_bit 1 y" using y0 by simp
  have "drop_bit 1 y \<le> y" using y0 by (simp add: drop_bit_eq_div)
  then have d1: "drop_bit 1 y < 2 ^ 32" using y1 by linarith
  have c1: "(if odd y then 2567483615 else 0) < (2 ^ 32 :: int)" by simp
  have c0: "(0::int) \<le> (if odd y then 2567483615 else 0)" by simp
  have x0: "0 \<le> drop_bit 1 y XOR (if odd y then 2567483615 else 0)" using d0 c0 by simp
  have x1: "drop_bit 1 y XOR (if odd y then 2567483615 else 0) < 2 ^ 32"
    by (rule XOR_upper [OF d0 d1 c1])
  have "0 \<le> k2 XOR drop_bit 1 y XOR (if odd y then 2567483615 else 0)"
    using r2 x0 by simp
  moreover have "k2 XOR drop_bit 1 y XOR (if odd y then 2567483615 else 0) < 2 ^ 32"
    by (rule XOR_upper [OF r2(1) r2(2) x1])
  ultimately show ?thesis
    by (simp add: mt19937_gen_def Let_def k0_def k1_def k2_def y_def)
qed

lemma mt19937_temper_range:
  assumes "0 \<le> y0" and "y0 < 2 ^ 32"
  shows "0 \<le> mt19937_temper y0 \<and> mt19937_temper y0 < 2 ^ 32"
proof -
  define y1 where "y1 = y0 XOR drop_bit 11 y0"
  define y2 where "y2 = y1 XOR (push_bit 7 y1 AND 2636928640)"
  define y3 where "y3 = y2 XOR (push_bit 15 y2 AND 4022730752)"
  have shr: "drop_bit n y < 2 ^ 32" if "0 \<le> y" "y < 2 ^ 32" for y :: int and n
  proof -
    have "y div 2 ^ n \<le> y div 1" using that(1) by (intro zdiv_mono2) simp_all
    then have "drop_bit n y \<le> y" by (simp add: drop_bit_eq_div)
    then show ?thesis using that(2) by linarith
  qed
  have p1: "0 \<le> y1" using assms by (simp add: y1_def)
  have q1: "y1 < 2 ^ 32" unfolding y1_def
    by (rule XOR_upper [OF assms(1) assms(2) shr [OF assms]])
  have m2: "push_bit 7 y1 AND 2636928640 < 2 ^ 32"
    using AND_upper2'' [of 2636928640 "2 ^ 32" "push_bit 7 y1"] by simp
  have p2: "0 \<le> y2" using p1 by (simp add: y2_def)
  have q2: "y2 < 2 ^ 32" unfolding y2_def by (rule XOR_upper [OF p1 q1 m2])
  have m3: "push_bit 15 y2 AND 4022730752 < 2 ^ 32"
    using AND_upper2'' [of 4022730752 "2 ^ 32" "push_bit 15 y2"] by simp
  have p3: "0 \<le> y3" using p2 by (simp add: y3_def)
  have q3: "y3 < 2 ^ 32" unfolding y3_def by (rule XOR_upper [OF p2 q2 m3])
  have "0 \<le> y3 XOR drop_bit 18 y3" using p3 by simp
  moreover have "y3 XOR drop_bit 18 y3 < 2 ^ 32"
    by (rule XOR_upper [OF p3 q3 shr [OF p3 q3]])
  ultimately show ?thesis
    by (simp add: mt19937_temper_def Let_def y1_def y2_def y3_def)
qed

lemma mt19937_next_double_range:
  "0 \<le> mt19937_next_double seed \<and> mt19937_next_double seed < 1"
proof -
  define t0 where "t0 = mt19937_temper (mt19937_gen seed 0)"
  define t1 where "t1 = mt19937_temper (mt19937_gen seed 1)"
  have r0: "0 \<le> t0" "t0 < 2 ^ 32" and r1: "0 \<le> t1" "t1 < 2 ^ 32"
    using mt19937_temper_range mt19937_gen_range by (simp_all add: t0_def t1_def)
  define a where "a = drop_bit 5 t0"
  define b where "b = drop_bit 6 t1"
  have a0: "0 \<le> a" and b0: "0 \<le> b" using r0 r1 by (simp_all add: a_def b_def)
  have a1: "a < 134217728" using r0 by (simp add: a_def drop_bit_eq_div)
  have b1: "b < 67108864" using r1 by (simp add: b_def drop_bit_eq_div)
  have "a * 67108864 + b < 9007199254740992" using a1 b1 by linarith
  then have u: "real_of_int a * 67108864 + real_of_int b < 9007199254740992"
    by (metis of_int_less_iff of_int_add of_int_mult of_int_numeral)
  have l: "0 \<le> real_of_int a * 67108864 + real_of_int b" using a0 b0 by simp
  have "mt19937_next_double seed = (real_of_int a * 67108864 + real_of_int b) / 9007199254740992"
    by (simp add: mt19937_next_double_def Let_def a_def b_def t0_def t1_def)
  then show ?thesis using u l by simp
qed

lemma variance_of_bounds:
  assumes dr: "double_rounding rnd"
  shows "rnd 0.95 \<le> variance_of rnd today d \<and> variance_of rnd today d \<le> 1.05 + 1 / 10 ^ 9"
proof -
  define lo where "lo = rnd (95 / 100)"
  define hi where "hi = rnd (105 / 100)"
  define sc where "sc = rnd (hi - lo)"
  define r where "r = mt19937_next_double (d + dt_day today)"
  define t where "t = rnd (sc * r)"
  have v: "variance_of rnd today d = rnd (lo + t)"
    by (simp add: variance_of_def np_random_uniform_def lo_def hi_def sc_def r_def t_def)
  have r0: "0 \<le> r" and r1: "r < 1"
    using mt19937_next_double_range by (simp_all add: r_def)
  have clo: "95 / 100 - 1 / 1000000000000000 \<le> lo \<and> lo \<le> 95 / 100 + 1 / 1000000000000000"
    unfolding lo_def by (rule dr_interval [OF dr]) simp_all
  have chi: "105 / 100 - 1 / 1000000000000000 \<le> hi \<and> hi \<le> 105 / 100 + 1 / 1000000000000000"
    unfolding hi_def by (rule dr_interval [OF dr]) simp_all
  have d1: "1 / 100 \<le> hi - lo" and d2: "hi - lo \<le> 2" using clo chi by linarith+
  have sc0: "0 \<le> sc" unfolding sc_def using d1 by (intro dr_nonneg [OF dr]) linarith
  have "rnd (hi - lo) \<le> (hi - lo) + 1 / 1000000000000000"
    using dr_interval [OF dr d1 d2] by blast
  then have sc1: "sc \<le> 1 / 10 + 3 / 1000000000000000" using clo chi unfolding sc_def by linarith
  have "sc * r \<le> sc * 1" using sc0 r1 by (intro mult_left_mono) simp_all
  then have m1: "sc * r \<le> 1 / 10 + 3 / 1000000000000000" using sc1 by linarith
  have m0: "0 \<le> sc * r" using sc0 r0 by (rule mult_nonneg_nonneg)
  have t0: "0 \<le> t" unfolding t_def by (rule dr_nonneg [OF dr m0])
  have ta: "t \<le> rnd (1 / 10 + 3 / 1000000000000000)" unfolding t_def by (rule dr_mono [OF dr m1])
  have tb: "rnd (1 / 10 + 3 / 1000000000000000) \<le> (1 / 10 + 3 / 1000000000000000) + 1 / 1000000000000000"
    using dr_interval [OF dr, of "1 / 10 + 3 / 1000000000000000"] by simp
  have t1: "t \<le> 1 / 10 + 4 / 1000000000000000" using ta tb by linarith
  have "lo \<le> lo + t" using t0 by linarith
  then have "rnd lo \<le> rnd (lo + t)" by (rule dr_mono [OF dr])
  then have lower: "lo \<le> rnd (lo + t)" by (simp only: lo_def dr_idem [OF dr])
  have s1: "lo + t \<le> 105 / 100 + 5 / 1000000000000000" using clo t1 by linarith
  have ua: "rnd (lo + t) \<le> rnd (105 / 100 + 5 / 1000000000000000)" by (rule dr_mono [OF dr s1])
  have ub: "rnd (105 / 100 + 5 / 1000000000000000)
      \<le> (105 / 100 + 5 / 1000000000000000) + 1 / 1000000000000000"
    using dr_interval [OF dr, of "105 / 100 + 5 / 1000000000000000"] by simp
  have upper: "rnd (lo + t) \<le> 105 / 100 + 1 / 1000000000" using ua ub by linarith
  have "rnd (95 / 100) \<le> variance_of rnd today d" using lower by (simp only: v lo_def)
  moreover have "variance_of rnd today d \<le> 105 / 100 + 1 / 1000000000"
    using upper by (simp only: v)
  ultimately show ?thesis by simp
qed

lemma variance_of_nonneg:
  assumes dr: "double_rounding rnd"
  shows "0 \<le> variance_of rnd today d"
proof -
  have "(0::real) \<le> 0.95" by simp
  then have "0 \<le> rnd 0.95" by (rule dr_nonneg [OF dr])
  moreover have "rnd 0.95 \<le> variance_of rnd today d"
    using variance_of_bounds [OF dr, of today d] by (rule conjunct1)
  ultimately show ?thesis by (rule order_trans)
qed

text \<open>
  The demand is a double that is not negative, so \<open>int\<close> takes its floor, and the
  estimates lie on either side of the prediction.
\<close>

lemma dow_factors_pos: "0 < dow_factors w"
  by (simp add: dow_factors_def)

lemma seasonal_factor_pos: "0 < seasonal_factor m"
  by (simp add: seasonal_factor_def)

lemma predicted_demand_formula:
  "predicted_demand rnd base today d =
     rnd (rnd (rnd (rnd (base * rnd (dow_factors (weekday (dt_ordinal today + int d))))
                  * rnd (seasonal_factor (dt_month today)))
             * rnd (1 + rnd (real d * rnd 0.005)))
        * variance_of rnd today d)"
  by (simp add: predicted_demand_def Let_def)

lemma predicted_demand_double:
  assumes dr: "double_rounding rnd" and base: "0 \<le> base"
  shows "0 \<le> predicted_demand rnd base today d
       \<and> rnd (predicted_demand rnd base today d) = predicted_demand rnd base today d"
proof -
  define w where "w = rnd (dow_factors (weekday (dt_ordinal today + int d)))"
  define s where "s = rnd (seasonal_factor (dt_month today))"
  define t where "t = rnd (1 + rnd (real d * rnd 0.005))"
  define v where "v = variance_of rnd today d"
  have eq: "predicted_demand rnd base today d = rnd (rnd (rnd (rnd (base * w) * s) * t) * v)"
    by (simp only: predicted_demand_formula w_def s_def t_def v_def)
  have w0: "0 \<le> w" unfolding w_def by (rule dr_nonneg [OF dr less_imp_le [OF dow_factors_pos]])
  have s0: "0 \<le> s" unfolding s_def by (rule dr_nonneg [OF dr less_imp_le [OF seasonal_factor_pos]])
  have "(0::real) \<le> 0.005" by simp
  then have "0 \<le> rnd 0.005" by (rule dr_nonneg [OF dr])
  then have "0 \<le> real d * rnd 0.005" by (intro mult_nonneg_nonneg) simp_all
  then have "0 \<le> rnd (real d * rnd 0.005)" by (rule dr_nonneg [OF dr])
  then have "0 \<le> 1 + rnd (real d * rnd 0.005)" by linarith
  then have t0: "0 \<le> t" unfolding t_def by (rule dr_nonneg [OF dr])
  have v0: "0 \<le> v" unfolding v_def by (rule variance_of_nonneg [OF dr])
  have a: "0 \<le> rnd (base * w)" by (rule dr_nonneg [OF dr mult_nonneg_nonneg [OF base w0]])
  have b: "0 \<le> rnd (rnd (base * w) * s)" by (rule dr_nonneg [OF dr mult_nonneg_nonneg [OF a s0]])
  have c: "0 \<le> rnd (rnd (rnd (base * w) * s) * t)"
    by (rule dr_nonneg [OF dr mult_nonneg_nonneg [OF b t0]])
  have p0: "0 \<le> rnd (rnd (rnd (rnd (base * w) * s) * t) * v)"
    by (rule dr_nonneg [OF dr mult_nonneg_nonneg [OF c v0]])
  have pd: "rnd (rnd (rnd (rnd (rnd (base * w) * s) * t) * v)) = rnd (rnd (rnd (rnd (base * w) * s) * t) * v)"
    by (rule dr_idem [OF dr])
  show ?thesis unfolding eq using p0 pd by (rule conjI)
qed

lemma base_daily_nonneg:
  assumes dr: "double_rounding rnd"
  shows "0 \<le> base_daily_of rnd state_data"
proof -
  have "0 \<le> real (sum_list (map bio_count state_data) + sum_list (map enrol_count state_data)) / 30"
    by simp
  then show ?thesis unfolding base_daily_of_def by (rule dr_nonneg [OF dr])
qed

lemma estimates_bracket:
  assumes dr: "double_rounding rnd" and p0: "0 \<le> p" and pd: "rnd p = p"
  shows "py_int p = \<lfloor>p\<rfloor> \<and> py_int (rnd (p * rnd 0.85)) = \<lfloor>rnd (p * rnd 0.85)\<rfloor>
       \<and> py_int (rnd (p * rnd 1.15)) = \<lfloor>rnd (p * rnd 1.15)\<rfloor>
       \<and> \<lfloor>rnd (p * rnd 0.85)\<rfloor> \<le> \<lfloor>p\<rfloor> \<and> \<lfloor>p\<rfloor> \<le> \<lfloor>rnd (p * rnd 1.15)\<rfloor>"
proof -
  define c where "c = rnd 0.85"
  define h where "h = rnd 1.15"
  have "(0.85::real) \<le> 1" by simp
  then have "rnd 0.85 \<le> rnd 1" by (rule dr_mono [OF dr])
  then have c1: "c \<le> 1" by (simp only: dr_one [OF dr] c_def)
  have "(0::real) \<le> 0.85" by simp
  then have c0: "0 \<le> c" unfolding c_def by (rule dr_nonneg [OF dr])
  have "(1::real) \<le> 1.15" by simp
  then have "rnd 1 \<le> rnd 1.15" by (rule dr_mono [OF dr])
  then have h1: "1 \<le> h" by (simp only: dr_one [OF dr] h_def)
  have "p * c \<le> p * 1" using c1 p0 by (rule mult_left_mono)
  then have "p * c \<le> p" by simp
  then have "rnd (p * c) \<le> rnd p" by (rule dr_mono [OF dr])
  then have lo: "rnd (p * c) \<le> p" by (simp only: pd)
  have "p * 1 \<le> p * h" using h1 p0 by (rule mult_left_mono)
  then have "p \<le> p * h" by simp
  then have "rnd p \<le> rnd (p * h)" by (rule dr_mono [OF dr])
  then have hi: "p \<le> rnd (p * h)" by (simp only: pd)
  have l0: "0 \<le> rnd (p * c)" by (rule dr_nonneg [OF dr mult_nonneg_nonneg [OF p0 c0]])
  have h0: "0 \<le> rnd (p * h)" using hi p0 by (rule order_trans [rotated])
  have i1: "py_int p = \<lfloor>p\<rfloor>" using p0 by (simp only: py_int_def if_True)
  have i2: "py_int (rnd (p * c)) = \<lfloor>rnd (p * c)\<rfloor>" using l0 by (simp only: py_int_def if_True)
  have i3: "py_int (rnd (p * h)) = \<lfloor>rnd (p * h)\<rfloor>" using h0 by (simp only: py_int_def if_True)
  have f1: "\<lfloor>rnd (p * c)\<rfloor> \<le> \<lfloor>p\<rfloor>" by (rule floor_mono [OF lo])
  have f2: "\<lfloor>p\<rfloor> \<le> \<lfloor>rnd (p * h)\<rfloor>" by (rule floor_mono [OF hi])
  show ?thesis unfolding c_def [symmetric] h_def [symmetric]
    by (intro conjI i1 i2 i3 f1 f2)
qed

text \<open>
  The confidence: the error of the double computation is below \<open>10 ^ -14\<close>, so
  \<open>round(confidence, 2)\<close> gives the two-decimal value of the exact expression.
\<close>

lemma round_half_even_near:
  assumes "of_int k - 1 / 2 < y" and "y < of_int k + 1 / 2"
  shows "round_half_even y = k"
proof (cases "of_int k \<le> y")
  case True
  then have f: "\<lfloor>y\<rfloor> = k" using assms(2) by (intro floor_unique) linarith+
  have "y - of_int k < 1 / 2" using assms(2) by linarith
  then show ?thesis by (simp add: round_half_even_def f)
next
  case False
  then have f: "\<lfloor>y\<rfloor> = k - 1" using assms(1) by (intro floor_unique) simp_all
  have "1 / 2 < y - of_int (k - 1)" using assms(1) by simp
  then show ?thesis by (simp add: round_half_even_def f)
qed

lemma confidence_rounded:
  assumes dr: "double_rounding rnd" and d: "d < 7"
  shows "py_round (confidence_of rnd d) 2 = max 0.65 (0.95 - 0.04 * real d)"
proof -
  define a where "a = rnd (4 / 100)"
  define m where "m = rnd (real d * a)"
  define b where "b = rnd (95 / 100)"
  define s where "s = rnd (b - m)"
  define c where "c = rnd (65 / 100)"
  have conf: "confidence_of rnd d = max c s"
    by (simp add: confidence_of_def a_def m_def b_def s_def c_def)
  have dn: "0 \<le> real d" and d6: "real d \<le> 6" using d by simp_all
  have ca: "4 / 100 - 1 / 1000000000000000 \<le> a \<and> a \<le> 4 / 100 + 1 / 1000000000000000"
    unfolding a_def by (rule dr_interval [OF dr]) simp_all
  have cb: "95 / 100 - 1 / 1000000000000000 \<le> b \<and> b \<le> 95 / 100 + 1 / 1000000000000000"
    unfolding b_def by (rule dr_interval [OF dr]) simp_all
  have cc: "65 / 100 - 1 / 1000000000000000 \<le> c \<and> c \<le> 65 / 100 + 1 / 1000000000000000"
    unfolding c_def by (rule dr_interval [OF dr]) simp_all
  have up: "real d * (a - 4 / 100) \<le> 6 / 1000000000000000"
  proof -
    have "real d * (a - 4 / 100) \<le> real d * (1 / 1000000000000000)"
      using ca dn by (intro mult_left_mono) linarith+
    also have "\<dots> \<le> 6 * (1 / 1000000000000000)"
      using d6 by (intro mult_right_mono) simp_all
    finally show ?thesis by simp
  qed
  have dw: "- (6 / 1000000000000000) \<le> real d * (a - 4 / 100)"
  proof -
    have "real d * (- (1 / 1000000000000000)) \<le> real d * (a - 4 / 100)"
      using ca dn by (intro mult_left_mono) linarith+
    moreover have "6 * (- (1 / 1000000000000000)) \<le> real d * (- (1 / 1000000000000000))"
      using d6 by (intro mult_right_mono_neg) simp_all
    ultimately show ?thesis by linarith
  qed
  have ya: "real d * a = 4 / 100 * real d + real d * (a - 4 / 100)"
    by (simp add: algebra_simps)
  have cm: "4 / 100 * real d - 7 / 1000000000000000 \<le> m
          \<and> m \<le> 4 / 100 * real d + 7 / 1000000000000000"
  proof (cases "d = 0")
    case True
    then show ?thesis by (simp add: m_def dr_zero [OF dr])
  next
    case False
    then have d1: "1 \<le> real d" by simp
    have lo: "1 / 100 \<le> real d * a" using ya up dw d1 by linarith
    have hi: "real d * a \<le> 2" using ya up dw d6 by linarith
    have "real d * a - 1 / 1000000000000000 \<le> m \<and> m \<le> real d * a + 1 / 1000000000000000"
      unfolding m_def by (rule dr_interval [OF dr lo hi])
    then show ?thesis using ya up dw by linarith
  qed
  have zl: "1 / 100 \<le> b - m" and zh: "b - m \<le> 2" using cb cm dn d6 by linarith+
  have "b - m - 1 / 1000000000000000 \<le> s \<and> s \<le> b - m + 1 / 1000000000000000"
    unfolding s_def by (rule dr_interval [OF dr zl zh])
  then have cs: "95 / 100 - 4 / 100 * real d - 9 / 1000000000000000 \<le> s
               \<and> s \<le> 95 / 100 - 4 / 100 * real d + 9 / 1000000000000000"
    using cb cm by linarith
  have "c \<le> s" using cc cs d6 by linarith
  then have mx: "max c s = s" by simp
  have k: "real_of_int (95 - 4 * int d) = 95 - 4 * real d" by simp
  have n1: "real_of_int (95 - 4 * int d) - 1 / 2 < s * 10 ^ 2"
    unfolding k using cs by simp
  have n2: "s * 10 ^ 2 < real_of_int (95 - 4 * int d) + 1 / 2"
    unfolding k using cs by simp
  have "round_half_even (s * 10 ^ 2) = 95 - 4 * int d"
    by (rule round_half_even_near [OF n1 n2])
  then have "py_round s 2 = (95 - 4 * real d) / 100"
    by (simp add: py_round_def)
  moreover have "max 0.65 (0.95 - 0.04 * real d) = (95 - 4 * real d) / 100"
    using d6 by simp
  ultimately show ?thesis by (simp only: conf mx)
qed

text \<open>
  C6, amended. The forecast has exactly 7 points, dated today to today + 6. The demand
  of day \<open>d\<close> is the baseline times the multiplier of the weekday (Monday 1.15, Tuesday
  1.10, Wednesday 1.05, Thursday 1.00, Friday 0.95, Saturday 0.70, Sunday 0.50) times the
  seasonal multiplier of today's month (January, March, April 1.25; October to December
  1.15; June to August 0.85; otherwise 1.0) times \<open>1 + 0.005 d\<close> times the variance
  factor, multiplied in this order in double arithmetic. The variance factor is the first
  \<open>np.random.uniform(0.95, 1.05)\<close> after \<open>np.random.seed(d + today.day)\<close>; it is at
  least 0.95 and at most 1.05 up to rounding. The prediction is the integer part of the
  demand; the low and high estimates are the integer parts of 0.85 and 1.15 times the
  demand itself (not of the integer prediction) and lie on either side of the prediction.
  The confidence is the double nearest to \<open>max(0.65, 0.95 - 0.04 d)\<close>.
\<close>

theorem forecast_7day_points:
  assumes "double_rounding rnd"
  shows "length (generate_7day_forecast rnd state_data today) = 7
    \<and> (\<forall>d<7.
          fc_date (generate_7day_forecast rnd state_data today ! d) = dt_ordinal today + int d
        \<and> variance_of rnd today d
             = np_random_uniform rnd (d + dt_day today) (rnd 0.95) (rnd 1.05)
        \<and> rnd 0.95 \<le> variance_of rnd today d
        \<and> variance_of rnd today d \<le> 1.05 + 1 / 10 ^ 9
        \<and> predicted_demand rnd (base_daily_of rnd state_data) today d
             = rnd (rnd (rnd (rnd (base_daily_of rnd state_data
                                    * rnd (dow_factors (weekday (dt_ordinal today + int d))))
                               * rnd (seasonal_factor (dt_month today)))
                          * rnd (1 + rnd (real d * rnd 0.005)))
                     * variance_of rnd today d)
        \<and> predicted_transactions (generate_7day_forecast rnd state_data today ! d)
             = \<lfloor>predicted_demand rnd (base_daily_of rnd state_data) today d\<rfloor>
        \<and> low_estimate (generate_7day_forecast rnd state_data today ! d)
             = \<lfloor>rnd (predicted_demand rnd (base_daily_of rnd state_data) today d * rnd 0.85)\<rfloor>
        \<and> high_estimate (generate_7day_forecast rnd state_data today ! d)
             = \<lfloor>rnd (predicted_demand rnd (base_daily_of rnd state_data) today d * rnd 1.15)\<rfloor>
        \<and> low_estimate (generate_7day_forecast rnd state_data today ! d)
             \<le> predicted_transactions (generate_7day_forecast rnd state_data today ! d)
        \<and> predicted_transactions (generate_7day_forecast rnd state_data today ! d)
             \<le> high_estimate (generate_7day_forecast rnd state_data today ! d)
        \<and> confidence (generate_7day_forecast rnd state_data today ! d)
             = rnd (max 0.65 (0.95 - 0.04 * real d)))
    \<and> map dow_factors [0, 1, 2, 3, 4, 5, 6] = [1.15, 1.10, 1.05, 1.00, 0.95, 0.70, 0.50]
    \<and> map seasonal_factor [1, 2, 3, 4, 5, 6, 7, 8, 9, 10, 11, 12]
         = [1.25, 1.0, 1.25, 1.25, 1.0, 0.85, 0.85, 0.85, 1.0, 1.15, 1.15, 1.15]"
proof -
  note dr = assms
  have len: "length (generate_7day_forecast rnd state_data today) = 7"
    by (simp add: generate_7day_forecast_def)
  have pt: "\<forall>d<7.
          fc_date (generate_7day_forecast rnd state_data today ! d) = dt_ordinal today + int d
        \<and> variance_of rnd today d
             = np_random_uniform rnd (d + dt_day today) (rnd 0.95) (rnd 1.05)
        \<and> rnd 0.95 \<le> variance_of rnd today d
        \<and> variance_of rnd today d \<le> 1.05 + 1 / 10 ^ 9
        \<and> predicted_demand rnd (base_daily_of rnd state_data) today d
             = rnd (rnd (rnd (rnd (base_daily_of rnd state_data
                                    * rnd (dow_factors (weekday (dt_ordinal today + int d))))
                               * rnd (seasonal_factor (dt_month today)))
                          * rnd (1 + rnd (real d * rnd 0.005)))
                     * variance_of rnd today d)
        \<and> predicted_transactions (generate_7day_forecast rnd state_data today ! d)
             = \<lfloor>predicted_demand rnd (base_daily_of rnd state_data) today d\<rfloor>
        \<and> low_estimate (generate_7day_forecast rnd state_data today ! d)
             = \<lfloor>rnd (predicted_demand rnd (base_daily_of rnd state_data) today d * rnd 0.85)\<rfloor>
        \<and> high_estimate (generate_7day_forecast rnd state_data today ! d)
             = \<lfloor>rnd (predicted_demand rnd (base_daily_of rnd state_data) today d * rnd 1.15)\<rfloor>
        \<and> low_estimate (generate_7day_forecast rnd state_data today ! d)
             \<le> predicted_transactions (generate_7day_forecast rnd state_data today ! d)
        \<and> predicted_transactions (generate_7day_forecast rnd state_data today ! d)
             \<le> high_estimate (generate_7day_forecast rnd state_data today ! d)
        \<and> confidence (generate_7day_forecast rnd state_data today ! d)
             = rnd (max 0.65 (0.95 - 0.04 * real d))"
  proof (intro allI impI)
    fix d :: nat
    assume d: "d < 7"
    define p where "p = predicted_demand rnd (base_daily_of rnd state_data) today d"
    have b0: "0 \<le> base_daily_of rnd state_data" by (rule base_daily_nonneg [OF dr])
    have pp: "0 \<le> p \<and> rnd p = p"
      unfolding p_def by (rule predicted_demand_double [OF dr b0])
    have br: "py_int p = \<lfloor>p\<rfloor> \<and> py_int (rnd (p * rnd 0.85)) = \<lfloor>rnd (p * rnd 0.85)\<rfloor>
       \<and> py_int (rnd (p * rnd 1.15)) = \<lfloor>rnd (p * rnd 1.15)\<rfloor>
       \<and> \<lfloor>rnd (p * rnd 0.85)\<rfloor> \<le> \<lfloor>p\<rfloor> \<and> \<lfloor>p\<rfloor> \<le> \<lfloor>rnd (p * rnd 1.15)\<rfloor>"
      using pp by (intro estimates_bracket [OF dr]) simp_all
    have nth: "generate_7day_forecast rnd state_data today ! d =
       \<lparr>fc_date = dt_ordinal today + int d,
        day_name = day_names ! weekday (dt_ordinal today + int d),
        predicted_transactions = py_int p,
        confidence = rnd (py_round (confidence_of rnd d) 2),
        low_estimate = py_int (rnd (p * rnd 0.85)),
        high_estimate = py_int (rnd (p * rnd 1.15))\<rparr>"
      unfolding p_def by (rule forecast_nth [OF d])
    have vb: "rnd 0.95 \<le> variance_of rnd today d \<and> variance_of rnd today d \<le> 1.05 + 1 / 10 ^ 9"
      by (rule variance_of_bounds [OF dr])
    have f: "p = rnd (rnd (rnd (rnd (base_daily_of rnd state_data
                                    * rnd (dow_factors (weekday (dt_ordinal today + int d))))
                               * rnd (seasonal_factor (dt_month today)))
                          * rnd (1 + rnd (real d * rnd 0.005)))
                     * variance_of rnd today d)"
      unfolding p_def by (rule predicted_demand_formula)
    have c: "py_round (confidence_of rnd d) 2 = max 0.65 (0.95 - 0.04 * real d)"
      by (rule confidence_rounded [OF dr d])
    have v: "variance_of rnd today d
             = np_random_uniform rnd (d + dt_day today) (rnd 0.95) (rnd 1.05)"
      by (simp only: variance_of_def)
    show "fc_date (generate_7day_forecast rnd state_data today ! d) = dt_ordinal today + int d
        \<and> variance_of rnd today d
             = np_random_uniform rnd (d + dt_day today) (rnd 0.95) (rnd 1.05)
        \<and> rnd 0.95 \<le> variance_of rnd today d
        \<and> variance_of rnd today d \<le> 1.05 + 1 / 10 ^ 9
        \<and> predicted_demand rnd (base_daily_of rnd state_data) today d
             = rnd (rnd (rnd (rnd (base_daily_of rnd state_data
                                    * rnd (dow_factors (weekday (dt_ordinal today + int d))))
                               * rnd (seasonal_factor (dt_month today)))
                          * rnd (1 + rnd (real d * rnd 0.005)))
                     * variance_of rnd today d)
        \<and> predicted_transactions (generate_7day_forecast rnd state_data today ! d)
             = \<lfloor>predicted_demand rnd (base_daily_of rnd state_data) today d\<rfloor>
        \<and> low_estimate (generate_7day_forecast rnd state_data today ! d)
             = \<lfloor>rnd (predicted_demand rnd (base_daily_of rnd state_data) today d * rnd 0.85)\<rfloor>
        \<and> high_estimate (generate_7day_forecast rnd state_data today ! d)
             = \<lfloor>rnd (predicted_demand rnd (base_daily_of rnd state_data) today d * rnd 1.15)\<rfloor>
        \<and> low_estimate (generate_7day_forecast rnd state_data today ! d)
             \<le> predicted_transactions (generate_7day_forecast rnd state_data today ! d)
        \<and> predicted_transactions (generate_7day_forecast rnd state_data today ! d)
             \<le> high_estimate (generate_7day_forecast rnd state_data today ! d)
        \<and> confidence (generate_7day_forecast rnd state_data today ! d)
             = rnd (max 0.65 (0.95 - 0.04 * real d))"
      unfolding p_def [symmetric] nth
      apply (simp only: forecast.simps c)
      apply (intro conjI)
      using v vb f br by (blast | simp)+
  qed
  have dw: "map dow_factors [0, 1, 2, 3, 4, 5, 6] = [1.15, 1.10, 1.05, 1.00, 0.95, 0.70, 0.50]"
    by (simp add: dow_factors_def)
  have sf: "map seasonal_factor [1, 2, 3, 4, 5, 6, 7, 8, 9, 10, 11, 12]
         = [1.25, 1.0, 1.25, 1.25, 1.0, 0.85, 0.85, 0.85, 1.0, 1.15, 1.15, 1.15]"
    by (simp add: seasonal_factor_def)
  from len pt dw sf show ?thesis by (intro conjI)
qed

theorem forecast_7day_points_witness:
  "double_rounding id
   \<and> length (generate_7day_forecast id example_state_data example_today) = 7
   \<and> fc_date (generate_7day_forecast id example_state_data example_today ! 0) = 739372
   \<and> variance_of id example_today 0
        = 19 / 20 + (55971745 * 67108864 + 66919939) / 90071992547409920
   \<and> predicted_transactions (generate_7day_forecast id example_state_data example_today ! 0) = 20
   \<and> low_estimate (generate_7day_forecast id example_state_data example_today ! 0) = 17
   \<and> high_estimate (generate_7day_forecast id example_state_data example_today ! 0) = 23
   \<and> confidence (generate_7day_forecast id example_state_data example_today ! 0) = 95 / 100"
proof -
  have d: "(0::nat) < 7" by simp
  note t = forecast_7day_points [OF dr_id, of example_state_data example_today]
  note p = t [THEN conjunct2, THEN conjunct1, rule_format, OF d]
  have pd: "predicted_demand id (base_daily_of id example_state_data) example_today 0
     = 209 / 10 * (19 / 20 + (55971745 * 67108864 + 66919939) / 90071992547409920)"
    by (simp only: example_base example_demand_0)
  have fl: "\<lfloor>209 / 10 * (19 / 20 + (55971745 * 67108864 + 66919939) / 90071992547409920) :: real\<rfloor> = 20"
    by (intro floor_unique) simp_all
  have lo: "\<lfloor>209 / 10 * (19 / 20 + (55971745 * 67108864 + 66919939) / 90071992547409920) * (85 / 100) :: real\<rfloor> = 17"
    by (intro floor_unique) simp_all
  have hi: "\<lfloor>209 / 10 * (19 / 20 + (55971745 * 67108864 + 66919939) / 90071992547409920) * (115 / 100) :: real\<rfloor> = 23"
    by (intro floor_unique) simp_all
  have od: "dt_ordinal example_today = 739372" by (simp add: example_today_def)
  show ?thesis
    using t [THEN conjunct1] p
    by (simp add: dr_id pd fl lo hi example_variance_0 od)
qed

end
